theory Spec2Isabelle
  imports Complex_Main "HOL-Library.Word"
begin

unbundle bit_operations_syntax

section \<open>Package wkbcommon: the data model\<close>

text \<open>
  The embedding follows \<^verbatim>\<open>encoding/wkbcommon/wkbcommon.go\<close>.

  \<^item> A \<^verbatim>\<open>byte\<close> is an \<open>8 word\<close>, a \<^verbatim>\<open>uint32\<close> a \<open>32 word\<close>.
  \<^item> A \<^verbatim>\<open>float64\<close> is its IEEE-754 bit pattern, a \<open>64 word\<close>: this is what
    \<^verbatim>\<open>math.Float64bits\<close> and \<^verbatim>\<open>math.Float64frombits\<close> convert to and from without
    changing a bit, so equality of two scalars here is bit identity (NaN payloads and
    the sign of zero included).
  \<^item> A Go \<^verbatim>\<open>int\<close> is a HOL \<open>int\<close>; the platform is taken to be a 64-bit one, and
    the one multiplication of the source that can overflow is wrapped by \<open>int64\<close>.
  \<^item> A slice is the list of its elements (\<^verbatim>\<open>nil\<close> and the empty slice are both
    \<open>[]\<close>, and a slice has no spare capacity: \<^verbatim>\<open>cap = len\<close>).
\<close>

type_synonym u8 = "8 word"
type_synonym uint32 = "32 word"
type_synonym float64 = "64 word"

text \<open>\<^verbatim>\<open>binary.ByteOrder\<close>, of which the package uses the two values below.\<close>

datatype ByteOrder = BigEndian | LittleEndian

text \<open>Byte order IDs and byte orders (lines 10 to 20 of the source).\<close>

definition XDRID :: u8 where
  "XDRID = 0"

definition NDRID :: u8 where
  "NDRID = 1"

definition XDR :: ByteOrder where
  "XDR = BigEndian"

definition NDR :: ByteOrder where
  "NDR = LittleEndian"

text \<open>
  The error values. \<open>EOF\<close> and \<open>ErrUnexpectedEOF\<close> are the two errors of
  \<^verbatim>\<open>io.ReadFull\<close> on a stream that ends early; \<open>ErrWriter\<close> stands for whatever
  error a writer's \<^verbatim>\<open>Write\<close> method returns (the number tells them apart). The
  others are the package's own types; the fields of \<open>ErrGeometryTooLarge\<close> are
  \<^verbatim>\<open>Level\<close>, \<^verbatim>\<open>N\<close> and \<^verbatim>\<open>Limit\<close>, in this order.
\<close>

datatype error =
    EOF
  | ErrUnexpectedEOF
  | ErrWriter nat
  | ErrUnknownByteOrder u8
  | ErrUnsupportedByteOrder
  | ErrUnknownType uint32
  | ErrUnsupportedType uint32
  | ErrGeometryTooLarge int uint32 uint32

text \<open>
  A call either returns or panics. The run-time panics the code can raise are an
  integer division by zero, \<^verbatim>\<open>make\<close> with a negative length and a slice expression
  out of range.
\<close>

datatype panic = DivideByZero | MakeSliceLenOutOfRange | SliceBoundsOutOfRange

datatype 'a outcome = Return 'a | Panic panic

text \<open>
  \<^verbatim>\<open>MaxGeometryElements\<close> (lines 69 to 74) is a package variable of type
  \<^verbatim>\<open>[4]uint32\<close>. The constant below is its initial value; since a caller may assign
  to the variable, the reading functions take the table's current value as their
  first argument \<open>maxElems\<close>.
\<close>

definition MaxGeometryElements :: "uint32 list" where
  "MaxGeometryElements = [0, push_bit 20 1, push_bit 15 1, push_bit 10 1]"

section \<open>The library functions the package calls\<close>

subsection \<open>\<^verbatim>\<open>binary.ByteOrder\<close>: fixed-size integers to bytes and back\<close>

fun PutUint32 :: "ByteOrder \<Rightarrow> uint32 \<Rightarrow> u8 list" where
  "PutUint32 LittleEndian v =
     [ucast v, ucast (drop_bit 8 v), ucast (drop_bit 16 v), ucast (drop_bit 24 v)]"
| "PutUint32 BigEndian v =
     [ucast (drop_bit 24 v), ucast (drop_bit 16 v), ucast (drop_bit 8 v), ucast v]"

fun Uint32 :: "ByteOrder \<Rightarrow> u8 list \<Rightarrow> uint32" where
  "Uint32 LittleEndian b =
     ucast (b ! 0) OR push_bit 8 (ucast (b ! 1)) OR push_bit 16 (ucast (b ! 2))
       OR push_bit 24 (ucast (b ! 3))"
| "Uint32 BigEndian b =
     ucast (b ! 3) OR push_bit 8 (ucast (b ! 2)) OR push_bit 16 (ucast (b ! 1))
       OR push_bit 24 (ucast (b ! 0))"

fun PutUint64 :: "ByteOrder \<Rightarrow> 64 word \<Rightarrow> u8 list" where
  "PutUint64 LittleEndian v =
     [ucast v, ucast (drop_bit 8 v), ucast (drop_bit 16 v), ucast (drop_bit 24 v),
      ucast (drop_bit 32 v), ucast (drop_bit 40 v), ucast (drop_bit 48 v),
      ucast (drop_bit 56 v)]"
| "PutUint64 BigEndian v =
     [ucast (drop_bit 56 v), ucast (drop_bit 48 v), ucast (drop_bit 40 v),
      ucast (drop_bit 32 v), ucast (drop_bit 24 v), ucast (drop_bit 16 v),
      ucast (drop_bit 8 v), ucast v]"

fun Uint64 :: "ByteOrder \<Rightarrow> u8 list \<Rightarrow> 64 word" where
  "Uint64 LittleEndian b =
     ucast (b ! 0) OR push_bit 8 (ucast (b ! 1)) OR push_bit 16 (ucast (b ! 2))
       OR push_bit 24 (ucast (b ! 3)) OR push_bit 32 (ucast (b ! 4))
       OR push_bit 40 (ucast (b ! 5)) OR push_bit 48 (ucast (b ! 6))
       OR push_bit 56 (ucast (b ! 7))"
| "Uint64 BigEndian b =
     ucast (b ! 7) OR push_bit 8 (ucast (b ! 6)) OR push_bit 16 (ucast (b ! 5))
       OR push_bit 24 (ucast (b ! 4)) OR push_bit 32 (ucast (b ! 3))
       OR push_bit 40 (ucast (b ! 2)) OR push_bit 48 (ucast (b ! 1))
       OR push_bit 56 (ucast (b ! 0))"

text \<open>
  The value of a \<^verbatim>\<open>float64\<close> bit pattern by IEEE 754 (binary64): bit 63 is the sign,
  bits 52 to 62 the biased exponent, bits 0 to 51 the fraction. Infinities and NaNs
  (exponent 2047) have no real value. The codec never looks at this value; it is
  here to say which bit patterns are the numbers 1.0, 2.0, 3.0 and 4.0.
\<close>

definition float64_val :: "float64 \<Rightarrow> real option" where
  "float64_val w =
     (let e = unat (take_bit 11 (drop_bit 52 w));
          m = unat (take_bit 52 w);
          s = (if bit w 63 then - 1 else 1 :: real)
      in if e = 2047 then None
         else if e = 0 then Some (s * real m / 2 ^ 1074)
         else if 1075 \<le> e then Some (s * real (2 ^ 52 + m) * 2 ^ (e - 1075))
         else Some (s * real (2 ^ 52 + m) / 2 ^ (1075 - e)))"

subsection \<open>Readers\<close>

text \<open>
  The \<^verbatim>\<open>io.Reader\<close> is a byte stream: the list of the bytes not yet read (what a
  \<^verbatim>\<open>bytes.Reader\<close> holds). \<open>ReadFull r k\<close> is \<^verbatim>\<open>io.ReadFull\<close> with a buffer of \<open>k\<close>
  bytes: it returns the bytes or the error, and the stream that is left. Asking for
  no byte succeeds without touching the stream; a stream that is empty gives
  \<open>EOF\<close>, one that ends before \<open>k\<close> bytes gives \<open>ErrUnexpectedEOF\<close> and is used up.
\<close>

type_synonym Reader = "u8 list"

definition ReadFull :: "Reader \<Rightarrow> nat \<Rightarrow> (error + u8 list) \<times> Reader" where
  "ReadFull r k =
     (if k = 0 then (Inr [], r)
      else if r = [] then (Inl EOF, r)
      else if length r < k then (Inl ErrUnexpectedEOF, [])
      else (Inr (take k r), drop k r))"

text \<open>\<^verbatim>\<open>binary.Read(r, byteOrder, &n)\<close> for \<^verbatim>\<open>n\<close> a \<^verbatim>\<open>uint32\<close>: four bytes.\<close>

definition binary_Read_uint32 :: "Reader \<Rightarrow> ByteOrder \<Rightarrow> (error + uint32) \<times> Reader" where
  "binary_Read_uint32 r byteOrder =
     (case ReadFull r 4 of
        (Inl err, r') \<Rightarrow> (Inl err, r')
      | (Inr bs, r') \<Rightarrow> (Inr (Uint32 byteOrder bs), r'))"

text \<open>
  \<^verbatim>\<open>binary.Read(r, byteOrder, &flatCoords)\<close> for a slice of \<open>len\<close> \<^verbatim>\<open>float64\<close>: one
  \<^verbatim>\<open>io.ReadFull\<close> of \<open>8 * len\<close> bytes, then every element decoded from its eight bytes.
\<close>

fun decode_float64s :: "ByteOrder \<Rightarrow> u8 list \<Rightarrow> nat \<Rightarrow> float64 list" where
  "decode_float64s byteOrder bs 0 = []"
| "decode_float64s byteOrder bs (Suc k) =
     Uint64 byteOrder (take 8 bs) # decode_float64s byteOrder (drop 8 bs) k"

definition binary_Read_float64s ::
  "Reader \<Rightarrow> ByteOrder \<Rightarrow> nat \<Rightarrow> (error + float64 list) \<times> Reader" where
  "binary_Read_float64s r byteOrder len =
     (case ReadFull r (8 * len) of
        (Inl err, r') \<Rightarrow> (Inl err, r')
      | (Inr bs, r') \<Rightarrow> (Inr (decode_float64s byteOrder bs len), r'))"

subsection \<open>Writers\<close>

text \<open>
  An \<^verbatim>\<open>io.Writer\<close> is an interface: the caller supplies the \<^verbatim>\<open>Write\<close> method. It
  is modelled by a state \<open>'w\<close> and a function from the state and the bytes to the
  error (if any) and the new state. \<^verbatim>\<open>binary.Write\<close> encodes its argument and hands
  the bytes to \<^verbatim>\<open>Write\<close> in one call, returning its error.
  \<open>Buffer_Write\<close> is the writer that never fails, a \<^verbatim>\<open>bytes.Buffer\<close>: the state is
  the list of the bytes written so far.
\<close>

type_synonym 'w Writer = "'w \<Rightarrow> u8 list \<Rightarrow> error option \<times> 'w"

definition binary_Write_uint32 ::
  "'w Writer \<Rightarrow> 'w \<Rightarrow> ByteOrder \<Rightarrow> uint32 \<Rightarrow> error option \<times> 'w" where
  "binary_Write_uint32 wr w byteOrder v = wr w (PutUint32 byteOrder v)"

definition binary_Write_float64s ::
  "'w Writer \<Rightarrow> 'w \<Rightarrow> ByteOrder \<Rightarrow> float64 list \<Rightarrow> error option \<times> 'w" where
  "binary_Write_float64s wr w byteOrder xs = wr w (concat (map (PutUint64 byteOrder) xs))"

definition Buffer_Write :: "u8 list Writer" where
  "Buffer_Write buf bs = (None, buf @ bs)"

subsection \<open>Integer arithmetic and slice expressions of Go\<close>

text \<open>
  \<open>go_div\<close> is the quotient \<^verbatim>\<open>a / b\<close> of Go for \<open>b \<noteq> 0\<close>: it truncates towards zero.
  \<open>int64\<close> is the value a 64-bit \<^verbatim>\<open>int\<close> holds after an operation whose exact result
  is \<open>x\<close> (two's complement wrap-around). \<open>make_len\<close> is the length check of
  \<^verbatim>\<open>make([]float64, len)\<close>: a negative length panics. Memory is not modelled: a
  length that is not negative is allocated, however large (Go panics as well for a
  length beyond the address space, and stops when the memory runs out).
  \<open>slice_expr xs lo hi\<close> is \<^verbatim>\<open>xs[lo:hi]\<close>, which panics unless
  \<open>0 \<le> lo \<le> hi \<le> len(xs)\<close>.
\<close>

definition go_div :: "int \<Rightarrow> int \<Rightarrow> int" where
  "go_div a b = sgn a * sgn b * (\<bar>a\<bar> div \<bar>b\<bar>)"

definition int64 :: "int \<Rightarrow> int" where
  "int64 x = (x + 2 ^ 63) mod 2 ^ 64 - 2 ^ 63"

definition make_len :: "int \<Rightarrow> nat option" where
  "make_len len = (if len < 0 then None else Some (nat len))"

definition slice_expr :: "'a list \<Rightarrow> int \<Rightarrow> int \<Rightarrow> 'a list option" where
  "slice_expr xs lo hi =
     (if 0 \<le> lo \<and> lo \<le> hi \<and> hi \<le> int (length xs)
      then Some (take (nat hi - nat lo) (drop (nat lo) xs))
      else None)"

section \<open>The flat-coordinate codec\<close>

subsection \<open>Reading\<close>

text \<open>
  \<^verbatim>\<open>ReadFlatCoords1\<close> (lines 111 to 124). The result is the pair the Go function
  returns, \<^verbatim>\<open>([]float64, error)\<close>, together with the stream that is left.
\<close>

definition ReadFlatCoords1 ::
  "uint32 list \<Rightarrow> Reader \<Rightarrow> ByteOrder \<Rightarrow> int \<Rightarrow>
     ((float64 list \<times> error option) \<times> Reader) outcome" where
  "ReadFlatCoords1 maxElems r byteOrder stride =
     (case binary_Read_uint32 r byteOrder of
        (Inl err, r1) \<Rightarrow> Return (([], Some err), r1)
      | (Inr n, r1) \<Rightarrow>
          if n > maxElems ! 1 then Return (([], Some (ErrGeometryTooLarge 1 n (maxElems ! 1))), r1)
          else (case make_len (int64 (uint n * stride)) of
                  None \<Rightarrow> Panic MakeSliceLenOutOfRange
                | Some len \<Rightarrow>
                    (case binary_Read_float64s r1 byteOrder len of
                       (Inl err, r2) \<Rightarrow> Return (([], Some err), r2)
                     | (Inr flatCoords, r2) \<Rightarrow> Return ((flatCoords, None), r2))))"

text \<open>
  The loop of \<^verbatim>\<open>ReadFlatCoords2\<close> (lines 137 to 144), by recursion on the number
  \<^verbatim>\<open>int(n) - i\<close> of iterations still to run. \<open>flatCoordss\<close> and \<open>ends\<close> are the two
  slices the loop appends to.
\<close>

fun ReadFlatCoords2_loop ::
  "uint32 list \<Rightarrow> Reader \<Rightarrow> ByteOrder \<Rightarrow> int \<Rightarrow> nat \<Rightarrow> float64 list \<Rightarrow> int list \<Rightarrow>
     ((float64 list \<times> int list \<times> error option) \<times> Reader) outcome" where
  "ReadFlatCoords2_loop maxElems r byteOrder stride 0 flatCoordss ends =
     Return ((flatCoordss, ends, None), r)"
| "ReadFlatCoords2_loop maxElems r byteOrder stride (Suc k) flatCoordss ends =
     (case ReadFlatCoords1 maxElems r byteOrder stride of
        Panic p \<Rightarrow> Panic p
      | Return ((flatCoords, Some err), r') \<Rightarrow> Return (([], [], Some err), r')
      | Return ((flatCoords, None), r') \<Rightarrow>
          ReadFlatCoords2_loop maxElems r' byteOrder stride k
            (flatCoordss @ flatCoords)
            (ends @ [int (length (flatCoordss @ flatCoords))]))"

text \<open>
  \<^verbatim>\<open>ReadFlatCoords2\<close> (lines 127 to 146); the result is the triple
  \<^verbatim>\<open>([]float64, []int, error)\<close> and the stream that is left.
\<close>

definition ReadFlatCoords2 ::
  "uint32 list \<Rightarrow> Reader \<Rightarrow> ByteOrder \<Rightarrow> int \<Rightarrow>
     ((float64 list \<times> int list \<times> error option) \<times> Reader) outcome" where
  "ReadFlatCoords2 maxElems r byteOrder stride =
     (case binary_Read_uint32 r byteOrder of
        (Inl err, r1) \<Rightarrow> Return (([], [], Some err), r1)
      | (Inr n, r1) \<Rightarrow>
          if n > maxElems ! 2 then Return (([], [], Some (ErrGeometryTooLarge 2 n (maxElems ! 2))), r1)
          else ReadFlatCoords2_loop maxElems r1 byteOrder stride (unat n) [] [])"

subsection \<open>Writing\<close>

text \<open>
  \<^verbatim>\<open>WriteFlatCoords1\<close> (lines 154 to 159). The count \<^verbatim>\<open>uint32(len(coords)/stride)\<close>
  is computed before anything is written: the division panics for \<open>stride = 0\<close>, and
  the conversion to \<^verbatim>\<open>uint32\<close> keeps the low 32 bits.
\<close>

definition WriteFlatCoords1 ::
  "'w Writer \<Rightarrow> 'w \<Rightarrow> ByteOrder \<Rightarrow> float64 list \<Rightarrow> int \<Rightarrow> (error option \<times> 'w) outcome" where
  "WriteFlatCoords1 wr w byteOrder coords stride =
     (if stride = 0 then Panic DivideByZero
      else (case binary_Write_uint32 wr w byteOrder
                   (word_of_int (go_div (int (length coords)) stride)) of
              (Some err, w') \<Rightarrow> Return (Some err, w')
            | (None, w') \<Rightarrow> Return (binary_Write_float64s wr w' byteOrder coords)))"

text \<open>
  The loop of \<^verbatim>\<open>WriteFlatCoords2\<close> (lines 166 to 172) over the entries of \<^verbatim>\<open>ends\<close>
  that are left, with the running \<^verbatim>\<open>offset\<close>.
\<close>

fun WriteFlatCoords2_loop ::
  "'w Writer \<Rightarrow> 'w \<Rightarrow> ByteOrder \<Rightarrow> float64 list \<Rightarrow> int list \<Rightarrow> int \<Rightarrow> int \<Rightarrow>
     (error option \<times> 'w) outcome" where
  "WriteFlatCoords2_loop wr w byteOrder flatCoords [] stride offset = Return (None, w)"
| "WriteFlatCoords2_loop wr w byteOrder flatCoords (end' # ends) stride offset =
     (case slice_expr flatCoords offset end' of
        None \<Rightarrow> Panic SliceBoundsOutOfRange
      | Some coords \<Rightarrow>
          (case WriteFlatCoords1 wr w byteOrder coords stride of
             Panic p \<Rightarrow> Panic p
           | Return (Some err, w') \<Rightarrow> Return (Some err, w')
           | Return (None, w') \<Rightarrow>
               WriteFlatCoords2_loop wr w' byteOrder flatCoords ends stride end'))"

text \<open>\<^verbatim>\<open>WriteFlatCoords2\<close> (lines 162 to 174).\<close>

definition WriteFlatCoords2 ::
  "'w Writer \<Rightarrow> 'w \<Rightarrow> ByteOrder \<Rightarrow> float64 list \<Rightarrow> int list \<Rightarrow> int \<Rightarrow>
     (error option \<times> 'w) outcome" where
  "WriteFlatCoords2 wr w byteOrder flatCoords ends stride =
     (case binary_Write_uint32 wr w byteOrder (word_of_nat (length ends)) of
        (Some err, w') \<Rightarrow> Return (Some err, w')
      | (None, w') \<Rightarrow> WriteFlatCoords2_loop wr w' byteOrder flatCoords ends stride 0)"

section \<open>Byte-order resolution\<close>

text \<open>
  Modelled from the spec: the byte-order resolution operation of section 4.1,
  \<^verbatim>\<open>resolve(orderID: byte)\<close>. The function itself is code of the packages that call
  wkbcommon and is not in the file; the file has the two identifiers, the two byte
  orders and the error type it uses. By the spec, identifier 0 resolves to big-endian,
  identifier 1 to little-endian, and any other value fails with
  \<^verbatim>\<open>UnknownByteOrder(orderID)\<close>; the spec names no value reserved for
  \<^verbatim>\<open>UnsupportedByteOrder\<close>, so no branch returns it.
\<close>

definition resolveByteOrder :: "u8 \<Rightarrow> error + ByteOrder" where
  "resolveByteOrder orderID =
     (if orderID = XDRID then Inr XDR
      else if orderID = NDRID then Inr NDR
      else Inl (ErrUnknownByteOrder orderID))"

section \<open>Bytes and integers\<close>

lemma length_PutUint32: "length (PutUint32 bo v) = 4"
  by (cases bo) simp_all

lemma length_PutUint64: "length (PutUint64 bo v) = 8"
  by (cases bo) simp_all

lemma bit_byte0:
  "bit (ucast (ucast (v :: 'a::len word) :: 8 word) :: 'a word) n \<longleftrightarrow> n < 8 \<and> bit v n"
  by (auto simp: bit_simps dest: bit_imp_le_length)

lemma bit_byte_at:
  "bit (push_bit k (ucast (ucast (drop_bit k (v :: 'a::len word)) :: 8 word)) :: 'a word) n
     \<longleftrightarrow> k \<le> n \<and> n < k + 8 \<and> bit v n"
  by (auto simp: bit_simps dest: bit_imp_le_length)

lemma Uint32_PutUint32: "Uint32 bo (PutUint32 bo v) = v"
proof (rule bit_word_eqI)
  fix n assume "n < LENGTH(32)"
  then have n: "n < 32" by simp
  show "bit (Uint32 bo (PutUint32 bo v)) n = bit v n"
  proof (cases bo)
    case BigEndian
    with n show ?thesis
      by (cases "bit v n") (auto simp: bit_or_iff bit_byte0 bit_byte_at)
  next
    case LittleEndian
    with n show ?thesis
      by (cases "bit v n") (auto simp: bit_or_iff bit_byte0 bit_byte_at)
  qed
qed

lemma Uint64_PutUint64: "Uint64 bo (PutUint64 bo v) = v"
proof (rule bit_word_eqI)
  fix n assume "n < LENGTH(64)"
  then have n: "n < 64" by simp
  show "bit (Uint64 bo (PutUint64 bo v)) n = bit v n"
  proof (cases bo)
    case BigEndian
    with n show ?thesis
      by (cases "bit v n") (auto simp: bit_or_iff bit_byte0 bit_byte_at)
  next
    case LittleEndian
    with n show ?thesis
      by (cases "bit v n") (auto simp: bit_or_iff bit_byte0 bit_byte_at)
  qed
qed

lemma decode_float64s_numeral:
  "decode_float64s bo bs (numeral k) =
     Uint64 bo (take 8 bs) # decode_float64s bo (drop 8 bs) (pred_numeral k)"
  by (simp add: numeral_eq_Suc)

section \<open>The bounds table and the byte orders\<close>

text \<open>
  Claim C8. The table \<^verbatim>\<open>MaxGeometryElements\<close> has exactly four entries, for the
  nesting levels 0 to 3, and its initial values are 0 at level 0, \<open>2^20 = 1048576\<close> at
  level 1, \<open>2^15 = 32768\<close> at level 2 and \<open>2^10 = 1024\<close> at level 3.
\<close>

theorem MaxGeometryElements_defaults:
  "length MaxGeometryElements = 4 \<and>
   MaxGeometryElements ! 0 = 0 \<and>
   MaxGeometryElements ! 1 = 2 ^ 20 \<and> MaxGeometryElements ! 1 = 1048576 \<and>
   MaxGeometryElements ! 2 = 2 ^ 15 \<and> MaxGeometryElements ! 2 = 32768 \<and>
   MaxGeometryElements ! 3 = 2 ^ 10 \<and> MaxGeometryElements ! 3 = 1024"
  by (simp add: MaxGeometryElements_def)

text \<open>
  Claim C7. Byte-order resolution maps identifier 0 to the big-endian byte order
  and identifier 1 to the little-endian one; for every other identifier it fails with
  \<open>ErrUnknownByteOrder\<close> carrying that identifier.
\<close>

theorem resolveByteOrder_cases:
  "resolveByteOrder 0 = Inr BigEndian \<and>
   resolveByteOrder 1 = Inr LittleEndian \<and>
   (\<forall>orderID. orderID \<noteq> 0 \<and> orderID \<noteq> 1 \<longrightarrow>
      resolveByteOrder orderID = Inl (ErrUnknownByteOrder orderID))"
  by (simp add: resolveByteOrder_def XDRID_def NDRID_def XDR_def NDR_def)

theorem resolveByteOrder_99:
  "(99 :: u8) \<noteq> 0 \<and> (99 :: u8) \<noteq> 1 \<and> resolveByteOrder 99 = Inl (ErrUnknownByteOrder 99)"
  using resolveByteOrder_cases by simp

section \<open>The concrete Level-1 scenario\<close>

text \<open>
  Claim C6. With stride 2 and big-endian byte order, \<open>WriteFlatCoords1\<close> applied to
  the scalars 1.0, 2.0, 3.0, 4.0 writes the four bytes \<open>00 00 00 02\<close> and then the four
  8-byte big-endian IEEE-754 encodings of 1.0, 2.0, 3.0 and 4.0 in this order, and
  \<open>ReadFlatCoords1\<close> applied to these 36 bytes with stride 2 returns the scalars 1.0,
  2.0, 3.0, 4.0. The first four conjuncts say that the bit patterns used are these
  four numbers.
\<close>

theorem level1_big_endian_scenario:
  "float64_val 0x3FF0000000000000 = Some 1 \<and>
   float64_val 0x4000000000000000 = Some 2 \<and>
   float64_val 0x4008000000000000 = Some 3 \<and>
   float64_val 0x4010000000000000 = Some 4 \<and>
   WriteFlatCoords1 Buffer_Write [] BigEndian
       [0x3FF0000000000000, 0x4000000000000000, 0x4008000000000000, 0x4010000000000000] 2
     = Return (None,
         [0x00, 0x00, 0x00, 0x02,
          0x3F, 0xF0, 0, 0, 0, 0, 0, 0,
          0x40, 0x00, 0, 0, 0, 0, 0, 0,
          0x40, 0x08, 0, 0, 0, 0, 0, 0,
          0x40, 0x10, 0, 0, 0, 0, 0, 0]) \<and>
   ReadFlatCoords1 MaxGeometryElements
       [0x00, 0x00, 0x00, 0x02,
        0x3F, 0xF0, 0, 0, 0, 0, 0, 0,
        0x40, 0x00, 0, 0, 0, 0, 0, 0,
        0x40, 0x08, 0, 0, 0, 0, 0, 0,
        0x40, 0x10, 0, 0, 0, 0, 0, 0] BigEndian 2
     = Return (([0x3FF0000000000000, 0x4000000000000000, 0x4008000000000000,
                 0x4010000000000000], None), [])"
proof -
  have v: "float64_val 0x3FF0000000000000 = Some 1"
    "float64_val 0x4000000000000000 = Some 2"
    "float64_val 0x4008000000000000 = Some 3"
    "float64_val 0x4010000000000000 = Some 4"
    by (simp_all add: float64_val_def)
  have w: "WriteFlatCoords1 Buffer_Write [] BigEndian
       [0x3FF0000000000000, 0x4000000000000000, 0x4008000000000000, 0x4010000000000000] 2
     = Return (None,
         [0x00, 0x00, 0x00, 0x02,
          0x3F, 0xF0, 0, 0, 0, 0, 0, 0,
          0x40, 0x00, 0, 0, 0, 0, 0, 0,
          0x40, 0x08, 0, 0, 0, 0, 0, 0,
          0x40, 0x10, 0, 0, 0, 0, 0, 0])"
    by (simp add: WriteFlatCoords1_def binary_Write_uint32_def binary_Write_float64s_def
          Buffer_Write_def go_div_def)
  have r: "ReadFlatCoords1 MaxGeometryElements
       [0x00, 0x00, 0x00, 0x02,
        0x3F, 0xF0, 0, 0, 0, 0, 0, 0,
        0x40, 0x00, 0, 0, 0, 0, 0, 0,
        0x40, 0x08, 0, 0, 0, 0, 0, 0,
        0x40, 0x10, 0, 0, 0, 0, 0, 0] BigEndian 2
     = Return (([0x3FF0000000000000, 0x4000000000000000, 0x4008000000000000,
                 0x4010000000000000], None), [])"
    by (simp add: ReadFlatCoords1_def binary_Read_uint32_def binary_Read_float64s_def
          ReadFull_def MaxGeometryElements_def int64_def make_len_def decode_float64s_numeral)
  from v w r show ?thesis by blast
qed

section \<open>Reading: bounds, errors and the ends\<close>

lemma binary_Read_uint32_eq:
  "binary_Read_uint32 r bo =
     (if r = [] then (Inl EOF, [])
      else if length r < 4 then (Inl ErrUnexpectedEOF, [])
      else (Inr (Uint32 bo (take 4 r)), drop 4 r))"
  by (simp add: binary_Read_uint32_def ReadFull_def)

lemma binary_Read_uint32_Inr:
  "binary_Read_uint32 r bo = (Inr n, r1) \<Longrightarrow>
     4 \<le> length r \<and> n = Uint32 bo (take 4 r) \<and> r1 = drop 4 r"
  by (auto simp: binary_Read_uint32_eq split: if_splits)

lemma ReadFlatCoords2_loop_numeral:
  "ReadFlatCoords2_loop maxElems r bo stride (numeral k) fcs es =
     (case ReadFlatCoords1 maxElems r bo stride of
        Panic p \<Rightarrow> Panic p
      | Return ((flatCoords, Some err), r') \<Rightarrow> Return (([], [], Some err), r')
      | Return ((flatCoords, None), r') \<Rightarrow>
          ReadFlatCoords2_loop maxElems r' bo stride (pred_numeral k)
            (fcs @ flatCoords) (es @ [int (length (fcs @ flatCoords))]))"
  by (simp add: numeral_eq_Suc)

lemmas read_eval =
  ReadFlatCoords2_def ReadFlatCoords2_loop_numeral ReadFlatCoords1_def
  binary_Read_uint32_def binary_Read_float64s_def ReadFull_def MaxGeometryElements_def
  int64_def make_len_def decode_float64s_numeral

text \<open>
  Claim C1. For every byte stream, byte order and stride: when the 4-byte count \<open>n\<close>
  that the read decodes is greater than \<open>maxElems ! 1\<close>, \<open>ReadFlatCoords1\<close> returns the
  error \<open>ErrGeometryTooLarge 1 n (maxElems ! 1)\<close>, and when it is greater than
  \<open>maxElems ! 2\<close>, \<open>ReadFlatCoords2\<close> returns \<open>ErrGeometryTooLarge 2 n (maxElems ! 2)\<close>.
  In both cases nothing more is read: the stream that is left is the one the read
  of the count left, the input without its first four bytes.
\<close>

theorem count_over_limit_rejected:
  assumes "binary_Read_uint32 r byteOrder = (Inr n, r1)"
  shows "(maxElems ! 1 < n \<longrightarrow>
            ReadFlatCoords1 maxElems r byteOrder stride =
              Return (([], Some (ErrGeometryTooLarge 1 n (maxElems ! 1))), r1)) \<and>
         (maxElems ! 2 < n \<longrightarrow>
            ReadFlatCoords2 maxElems r byteOrder stride =
              Return (([], [], Some (ErrGeometryTooLarge 2 n (maxElems ! 2))), r1)) \<and>
         n = Uint32 byteOrder (take 4 r) \<and> r1 = drop 4 r"
  using assms binary_Read_uint32_Inr [OF assms]
  by (simp add: ReadFlatCoords1_def ReadFlatCoords2_def)

theorem count_over_limit_rejected_witness:
  "binary_Read_uint32 [0x00, 0x10, 0x00, 0x01, 0xAA] BigEndian = (Inr 1048577, [0xAA]) \<and>
   MaxGeometryElements ! 1 < 1048577 \<and>
   ReadFlatCoords1 MaxGeometryElements [0x00, 0x10, 0x00, 0x01, 0xAA] BigEndian 2 =
     Return (([], Some (ErrGeometryTooLarge 1 1048577 1048576)), [0xAA]) \<and>
   MaxGeometryElements ! 2 < 1048577 \<and>
   ReadFlatCoords2 MaxGeometryElements [0x00, 0x10, 0x00, 0x01, 0xAA] BigEndian 2 =
     Return (([], [], Some (ErrGeometryTooLarge 2 1048577 32768)), [0xAA])"
proof -
  have h: "binary_Read_uint32 [0x00, 0x10, 0x00, 0x01, 0xAA] BigEndian = (Inr 1048577, [0xAA])"
    by (simp add: binary_Read_uint32_eq)
  have l: "MaxGeometryElements ! 1 = 1048576" "MaxGeometryElements ! 2 = 32768"
    by (simp_all add: MaxGeometryElements_def)
  from count_over_limit_rejected [OF h, of MaxGeometryElements 2] h l
  show ?thesis by simp
qed

lemma ReadFlatCoords1_error_nil:
  "ReadFlatCoords1 maxElems r bo stride = Return ((fc, Some err), r') \<Longrightarrow> fc = []"
  by (auto simp: ReadFlatCoords1_def split: prod.splits sum.splits if_splits option.splits)

lemma ReadFlatCoords2_loop_fails_at:
  "length rs = Suc (length subs) \<Longrightarrow> length subs < m \<Longrightarrow>
   (\<forall>i<length subs. ReadFlatCoords1 maxElems (rs ! i) bo stride =
        Return ((subs ! i, None), rs ! Suc i)) \<Longrightarrow>
   ReadFlatCoords1 maxElems (rs ! length subs) bo stride = Return ((x, Some err), r') \<Longrightarrow>
     ReadFlatCoords2_loop maxElems (rs ! 0) bo stride m fcs es = Return (([], [], Some err), r')"
proof (induction subs arbitrary: rs m fcs es)
  case Nil
  then obtain m' where "m = Suc m'" by (cases m) auto
  with Nil show ?case by simp
next
  case (Cons s ss)
  from Cons.prems(2) obtain m' where m: "m = Suc m'" and m': "length ss < m'"
    by (cases m) auto
  from Cons.prems(1) obtain a rs' where rs: "rs = a # rs'" and l: "length rs' = Suc (length ss)"
    by (cases rs) auto
  from Cons.prems(3) have first: "ReadFlatCoords1 maxElems a bo stride = Return ((s, None), rs' ! 0)"
    unfolding rs by auto
  have rest: "\<forall>i<length ss. ReadFlatCoords1 maxElems (rs' ! i) bo stride =
        Return ((ss ! i, None), rs' ! Suc i)"
  proof (intro allI impI)
    fix i assume "i < length ss"
    then have "Suc i < length (s # ss)" by simp
    from Cons.prems(3) [rule_format, OF this] show
      "ReadFlatCoords1 maxElems (rs' ! i) bo stride = Return ((ss ! i, None), rs' ! Suc i)"
      unfolding rs by simp
  qed
  from Cons.prems(4) have last: "ReadFlatCoords1 maxElems (rs' ! length ss) bo stride =
      Return ((x, Some err), r')"
    unfolding rs by simp
  from Cons.IH [OF l m' rest last]
  have "ReadFlatCoords2_loop maxElems (rs' ! 0) bo stride m' (fcs @ s)
          (es @ [int (length (fcs @ s))]) = Return (([], [], Some err), r')" .
  with first show ?case unfolding rs m by simp
qed

lemma ReadFlatCoords2_loop_error_chain:
  "ReadFlatCoords2_loop maxElems r bo stride m fcs es = Return ((fc, ends, Some err), r') \<Longrightarrow>
     fc = [] \<and> ends = [] \<and>
     (\<exists>subs rs. length rs = Suc (length subs) \<and> length subs < m \<and> rs ! 0 = r \<and>
        (\<forall>i<length subs. ReadFlatCoords1 maxElems (rs ! i) bo stride =
            Return ((subs ! i, None), rs ! Suc i)) \<and>
        ReadFlatCoords1 maxElems (rs ! length subs) bo stride = Return (([], Some err), r'))"
proof (induction m arbitrary: r fcs es)
  case 0
  then show ?case by simp
next
  case (Suc m)
  show ?case
  proof (cases "ReadFlatCoords1 maxElems r bo stride")
    case (Panic p)
    with Suc.prems show ?thesis by simp
  next
    case (Return y)
    obtain flatCoords e r2 where y: "y = ((flatCoords, e), r2)"
      by (metis surj_pair)
    show ?thesis
    proof (cases e)
      case None
      from Return y None Suc.prems
      have "ReadFlatCoords2_loop maxElems r2 bo stride m (fcs @ flatCoords)
              (es @ [int (length (fcs @ flatCoords))]) = Return ((fc, ends, Some err), r')"
        by simp
      from Suc.IH [OF this] obtain subs rs where
        *: "fc = []" "ends = []" "length rs = Suc (length subs)" "length subs < m" "rs ! 0 = r2"
           "\<forall>i<length subs. ReadFlatCoords1 maxElems (rs ! i) bo stride =
               Return ((subs ! i, None), rs ! Suc i)"
           "ReadFlatCoords1 maxElems (rs ! length subs) bo stride = Return (([], Some err), r')"
        by blast
      let ?subs = "flatCoords # subs" and ?rs = "r # rs"
      have a: "length ?rs = Suc (length ?subs)" "length ?subs < Suc m" "?rs ! 0 = r"
        using * by simp_all
      have b: "\<forall>i<length ?subs. ReadFlatCoords1 maxElems (?rs ! i) bo stride =
               Return ((?subs ! i, None), ?rs ! Suc i)"
      proof (intro allI impI)
        fix i assume i: "i < length ?subs"
        show "ReadFlatCoords1 maxElems (?rs ! i) bo stride =
               Return ((?subs ! i, None), ?rs ! Suc i)"
        proof (cases i)
          case 0
          with Return y None *(5) show ?thesis by simp
        next
          case (Suc j)
          with i *(6) show ?thesis by simp
        qed
      qed
      have c: "ReadFlatCoords1 maxElems (?rs ! length ?subs) bo stride =
                 Return (([], Some err), r')"
        using *(7) by simp
      from *(1,2) a b c show ?thesis by blast
    next
      case (Some err')
      with Return y Suc.prems have eq: "fc = []" "ends = []" "err' = err" "r2 = r'"
        by simp_all
      from Return y Some have "flatCoords = []"
        using ReadFlatCoords1_error_nil by blast
      with Return y Some eq
      have c: "ReadFlatCoords1 maxElems ([r] ! length ([] :: float64 list list)) bo stride =
                 Return (([], Some err), r')"
        by simp
      have a: "length [r] = Suc (length ([] :: float64 list list))"
        "length ([] :: float64 list list) < Suc m" "[r] ! 0 = r"
        by simp_all
      have b: "\<forall>i<length ([] :: float64 list list).
                 ReadFlatCoords1 maxElems ([r] ! i) bo stride =
                   Return ((([] :: float64 list list) ! i, None), [r] ! Suc i)"
        by simp
      from eq(1,2) a b c show ?thesis by blast
    qed
  qed
qed

text \<open>
  Claim C5. A Level-2 read that fails returns the error of the step that failed,
  unchanged, and nothing else. The theorem has one conjunct for each way to fail and
  one for the converse:
  \<^item> if the read of the count fails with \<open>err\<close>, \<open>ReadFlatCoords2\<close> returns \<open>err\<close>;
  \<^item> if the count \<open>n\<close> is above \<open>maxElems ! 2\<close>, it returns \<open>ErrGeometryTooLarge\<close>;
  \<^item> if the first \<open>length subs\<close> inner reads succeed (the read number \<open>i\<close> is started on
    the stream \<open>rs ! i\<close>, returns the sub-array \<open>subs ! i\<close> and leaves \<open>rs ! Suc i\<close>) and
    the next inner \<open>ReadFlatCoords1\<close> returns the error \<open>err\<close>, \<open>ReadFlatCoords2\<close>
    returns \<open>err\<close>, however many sub-arrays were read before;
  \<^item> whenever \<open>ReadFlatCoords2\<close> returns an error, it is in one of these three ways.

  In every case the coordinates and the ends returned are both empty (\<^verbatim>\<open>nil\<close>), and
  the stream is left as the failing step left it.
\<close>

theorem ReadFlatCoords2_error_no_partial_result:
  "(binary_Read_uint32 r byteOrder = (Inl err, r') \<longrightarrow>
      ReadFlatCoords2 maxElems r byteOrder stride = Return (([], [], Some err), r')) \<and>
   (binary_Read_uint32 r byteOrder = (Inr n, r') \<and> maxElems ! 2 < n \<longrightarrow>
      ReadFlatCoords2 maxElems r byteOrder stride =
        Return (([], [], Some (ErrGeometryTooLarge 2 n (maxElems ! 2))), r')) \<and>
   (binary_Read_uint32 r byteOrder = (Inr n, rs ! 0) \<and> \<not> maxElems ! 2 < n \<and>
    length subs < unat n \<and> length rs = Suc (length subs) \<and>
    (\<forall>i<length subs. ReadFlatCoords1 maxElems (rs ! i) byteOrder stride =
        Return ((subs ! i, None), rs ! Suc i)) \<and>
    ReadFlatCoords1 maxElems (rs ! length subs) byteOrder stride = Return ((x, Some err), r') \<longrightarrow>
      ReadFlatCoords2 maxElems r byteOrder stride = Return (([], [], Some err), r')) \<and>
   (ReadFlatCoords2 maxElems r byteOrder stride = Return ((flatCoordss, ends, Some err), r') \<longrightarrow>
      flatCoordss = [] \<and> ends = [] \<and>
      (binary_Read_uint32 r byteOrder = (Inl err, r') \<or>
       (\<exists>k. binary_Read_uint32 r byteOrder = (Inr k, r') \<and> maxElems ! 2 < k \<and>
             err = ErrGeometryTooLarge 2 k (maxElems ! 2)) \<or>
       (\<exists>k ss ts. binary_Read_uint32 r byteOrder = (Inr k, ts ! 0) \<and> \<not> maxElems ! 2 < k \<and>
             length ss < unat k \<and> length ts = Suc (length ss) \<and>
             (\<forall>i<length ss. ReadFlatCoords1 maxElems (ts ! i) byteOrder stride =
                 Return ((ss ! i, None), ts ! Suc i)) \<and>
             ReadFlatCoords1 maxElems (ts ! length ss) byteOrder stride =
               Return (([], Some err), r'))))"
proof (intro conjI impI)
  assume "binary_Read_uint32 r byteOrder = (Inl err, r')"
  then show "ReadFlatCoords2 maxElems r byteOrder stride = Return (([], [], Some err), r')"
    by (simp add: ReadFlatCoords2_def)
next
  assume "binary_Read_uint32 r byteOrder = (Inr n, r') \<and> maxElems ! 2 < n"
  then show "ReadFlatCoords2 maxElems r byteOrder stride =
        Return (([], [], Some (ErrGeometryTooLarge 2 n (maxElems ! 2))), r')"
    by (simp add: ReadFlatCoords2_def)
next
  assume a: "binary_Read_uint32 r byteOrder = (Inr n, rs ! 0) \<and> \<not> maxElems ! 2 < n \<and>
    length subs < unat n \<and> length rs = Suc (length subs) \<and>
    (\<forall>i<length subs. ReadFlatCoords1 maxElems (rs ! i) byteOrder stride =
        Return ((subs ! i, None), rs ! Suc i)) \<and>
    ReadFlatCoords1 maxElems (rs ! length subs) byteOrder stride = Return ((x, Some err), r')"
  then have "ReadFlatCoords2_loop maxElems (rs ! 0) byteOrder stride (unat n) [] [] =
               Return (([], [], Some err), r')"
    by (intro ReadFlatCoords2_loop_fails_at [where subs = subs and x = x]) simp_all
  with a show "ReadFlatCoords2 maxElems r byteOrder stride = Return (([], [], Some err), r')"
    by (simp add: ReadFlatCoords2_def)
next
  assume ret: "ReadFlatCoords2 maxElems r byteOrder stride =
                 Return ((flatCoordss, ends, Some err), r')"
  obtain a r1 where a: "binary_Read_uint32 r byteOrder = (a, r1)"
    by (cases "binary_Read_uint32 r byteOrder")
  have "flatCoordss = [] \<and> ends = [] \<and>
      (binary_Read_uint32 r byteOrder = (Inl err, r') \<or>
       (\<exists>k. binary_Read_uint32 r byteOrder = (Inr k, r') \<and> maxElems ! 2 < k \<and>
             err = ErrGeometryTooLarge 2 k (maxElems ! 2)) \<or>
       (\<exists>k ss ts. binary_Read_uint32 r byteOrder = (Inr k, ts ! 0) \<and> \<not> maxElems ! 2 < k \<and>
             length ss < unat k \<and> length ts = Suc (length ss) \<and>
             (\<forall>i<length ss. ReadFlatCoords1 maxElems (ts ! i) byteOrder stride =
                 Return ((ss ! i, None), ts ! Suc i)) \<and>
             ReadFlatCoords1 maxElems (ts ! length ss) byteOrder stride =
               Return (([], Some err), r')))"
  proof (cases a)
    case (Inl e)
    with a ret show ?thesis by (simp add: ReadFlatCoords2_def)
  next
    case (Inr k)
    show ?thesis
    proof (cases "maxElems ! 2 < k")
      case True
      with a Inr ret show ?thesis by (simp add: ReadFlatCoords2_def)
    next
      case False
      with a Inr ret
      have "ReadFlatCoords2_loop maxElems r1 byteOrder stride (unat k) [] [] =
              Return ((flatCoordss, ends, Some err), r')"
        by (simp add: ReadFlatCoords2_def)
      from ReadFlatCoords2_loop_error_chain [OF this] obtain ss ts where
        *: "flatCoordss = []" "ends = []" "length ts = Suc (length ss)" "length ss < unat k"
           "ts ! 0 = r1"
           "\<forall>i<length ss. ReadFlatCoords1 maxElems (ts ! i) byteOrder stride =
               Return ((ss ! i, None), ts ! Suc i)"
           "ReadFlatCoords1 maxElems (ts ! length ss) byteOrder stride =
               Return (([], Some err), r')"
        by blast
      from a Inr *(5) have "binary_Read_uint32 r byteOrder = (Inr k, ts ! 0)" by simp
      with False * show ?thesis by blast
    qed
  qed
  then show "flatCoordss = []" and "ends = []" and
      "binary_Read_uint32 r byteOrder = (Inl err, r') \<or>
       (\<exists>k. binary_Read_uint32 r byteOrder = (Inr k, r') \<and> maxElems ! 2 < k \<and>
             err = ErrGeometryTooLarge 2 k (maxElems ! 2)) \<or>
       (\<exists>k ss ts. binary_Read_uint32 r byteOrder = (Inr k, ts ! 0) \<and> \<not> maxElems ! 2 < k \<and>
             length ss < unat k \<and> length ts = Suc (length ss) \<and>
             (\<forall>i<length ss. ReadFlatCoords1 maxElems (ts ! i) byteOrder stride =
                 Return ((ss ! i, None), ts ! Suc i)) \<and>
             ReadFlatCoords1 maxElems (ts ! length ss) byteOrder stride =
               Return (([], Some err), r'))"
    by blast+
qed

theorem ReadFlatCoords2_error_no_partial_result_witness:
  "binary_Read_uint32
     [0, 0, 0, 2,
      0, 0, 0, 1,  0x3F, 0xF0, 0, 0, 0, 0, 0, 0,
      0, 0, 0, 1,  0x40, 0x00, 0] BigEndian
     = (Inr 2, [0, 0, 0, 1,  0x3F, 0xF0, 0, 0, 0, 0, 0, 0,  0, 0, 0, 1,  0x40, 0x00, 0]) \<and>
   ReadFlatCoords1 MaxGeometryElements
     [0, 0, 0, 1,  0x3F, 0xF0, 0, 0, 0, 0, 0, 0,  0, 0, 0, 1,  0x40, 0x00, 0] BigEndian 1
     = Return (([0x3FF0000000000000], None), [0, 0, 0, 1,  0x40, 0x00, 0]) \<and>
   ReadFlatCoords1 MaxGeometryElements [0, 0, 0, 1,  0x40, 0x00, 0] BigEndian 1
     = Return (([], Some ErrUnexpectedEOF), []) \<and>
   ReadFlatCoords2 MaxGeometryElements
     [0, 0, 0, 2,
      0, 0, 0, 1,  0x3F, 0xF0, 0, 0, 0, 0, 0, 0,
      0, 0, 0, 1,  0x40, 0x00, 0] BigEndian 1
     = Return (([], [], Some ErrUnexpectedEOF), [])"
proof -
  let ?r1 = "[0, 0, 0, 1,  0x3F, 0xF0, 0, 0, 0, 0, 0, 0,  0, 0, 0, 1,  0x40, 0x00, 0] :: u8 list"
  let ?r2 = "[0, 0, 0, 1,  0x40, 0x00, 0] :: u8 list"
  let ?r = "[0, 0, 0, 2] @ ?r1"
  have c: "binary_Read_uint32 ?r BigEndian = (Inr 2, ?r1)"
    by (simp add: binary_Read_uint32_eq)
  have i1: "ReadFlatCoords1 MaxGeometryElements ?r1 BigEndian 1
              = Return (([0x3FF0000000000000], None), ?r2)"
    by (simp add: read_eval)
  have i2: "ReadFlatCoords1 MaxGeometryElements ?r2 BigEndian 1
              = Return (([], Some ErrUnexpectedEOF), [])"
    by (simp add: read_eval)
  have l: "\<not> MaxGeometryElements ! 2 < 2"
    by (simp add: MaxGeometryElements_def)
  have h: "binary_Read_uint32 ?r BigEndian = (Inr 2, [?r1, ?r2] ! 0) \<and>
    \<not> MaxGeometryElements ! 2 < 2 \<and>
    length [[0x3FF0000000000000 :: float64]] < unat (2 :: uint32) \<and>
    length [?r1, ?r2] = Suc (length [[0x3FF0000000000000 :: float64]]) \<and>
    (\<forall>i<length [[0x3FF0000000000000 :: float64]].
        ReadFlatCoords1 MaxGeometryElements ([?r1, ?r2] ! i) BigEndian 1 =
          Return (([[0x3FF0000000000000]] ! i, None), [?r1, ?r2] ! Suc i)) \<and>
    ReadFlatCoords1 MaxGeometryElements ([?r1, ?r2] ! length [[0x3FF0000000000000 :: float64]])
        BigEndian 1 = Return (([], Some ErrUnexpectedEOF), [])"
    using c i1 i2 l by simp
  have "ReadFlatCoords2 MaxGeometryElements ?r BigEndian 1
          = Return (([], [], Some ErrUnexpectedEOF), [])"
    using ReadFlatCoords2_error_no_partial_result [where r = ?r and byteOrder = BigEndian and maxElems = MaxGeometryElements
        and stride = 1 and n = 2 and rs = "[?r1, ?r2]" and subs = "[[0x3FF0000000000000]]"
        and x = "[]" and err = ErrUnexpectedEOF and r' = "[]",
        THEN conjunct2, THEN conjunct2, THEN conjunct1] h
    by (rule mp)
  with c i1 i2 show ?thesis by simp
qed

lemma ReadFlatCoords2_loop_ok:
  "ReadFlatCoords2_loop maxElems r bo stride k fcs es = Return ((fc, ends, None), r') \<Longrightarrow>
   sorted es \<Longrightarrow> (\<forall>e\<in>set es. 0 \<le> e \<and> e \<le> int (length fcs)) \<Longrightarrow>
   last (0 # es) = int (length fcs) \<Longrightarrow>
     sorted ends \<and> (\<forall>e\<in>set ends. 0 \<le> e \<and> e \<le> int (length fc)) \<and>
     last (0 # ends) = int (length fc) \<and> length ends = length es + k"
proof (induction k arbitrary: r fcs es)
  case 0
  then show ?case by simp
next
  case (Suc k)
  show ?case
  proof (cases "ReadFlatCoords1 maxElems r bo stride")
    case (Panic p)
    with Suc.prems show ?thesis by simp
  next
    case (Return x)
    obtain flatCoords e r2 where x: "x = ((flatCoords, e), r2)"
      by (metis surj_pair)
    show ?thesis
    proof (cases e)
      case None
      let ?fcs = "fcs @ flatCoords"
      let ?es = "es @ [int (length ?fcs)]"
      from Return x None Suc.prems(1)
      have run: "ReadFlatCoords2_loop maxElems r2 bo stride k ?fcs ?es =
                   Return ((fc, ends, None), r')"
        by simp
      have s: "sorted ?es"
        using Suc.prems(2,3) by (auto simp: sorted_append)
      have b: "\<forall>e\<in>set ?es. 0 \<le> e \<and> e \<le> int (length ?fcs)"
        using Suc.prems(3) by auto
      have l: "last (0 # ?es) = int (length ?fcs)"
        by simp
      from Suc.IH [OF run s b l] show ?thesis by simp
    next
      case (Some err')
      with Return x Suc.prems show ?thesis by simp
    qed
  qed
qed

lemma ReadFlatCoords2_loop_ok_chain:
  "ReadFlatCoords2_loop maxElems r bo stride m fcs es = Return ((fc, ends, None), r') \<Longrightarrow>
     \<exists>subs rs. length subs = m \<and> length rs = Suc m \<and> rs ! 0 = r \<and> rs ! m = r' \<and>
        (\<forall>i<m. ReadFlatCoords1 maxElems (rs ! i) bo stride =
            Return ((subs ! i, None), rs ! Suc i)) \<and>
        fc = fcs @ concat subs \<and>
        ends = es @ map (\<lambda>i. int (length (fcs @ concat (take (Suc i) subs)))) [0..<m]"
proof (induction m arbitrary: r fcs es)
  case 0
  then have "fc = fcs" "ends = es" "r' = r" by simp_all
  then have "length ([] :: float64 list list) = 0 \<and> length [r] = Suc 0 \<and> [r] ! 0 = r \<and> [r] ! 0 = r' \<and>
        (\<forall>i<0. ReadFlatCoords1 maxElems ([r] ! i) bo stride =
            Return (([] ! i, None), [r] ! Suc i)) \<and>
        fc = fcs @ concat [] \<and>
        ends = es @ map (\<lambda>i. int (length (fcs @ concat (take (Suc i) [])))) [0..<0]"
    by simp
  then show ?case by blast
next
  case (Suc m)
  show ?case
  proof (cases "ReadFlatCoords1 maxElems r bo stride")
    case (Panic p)
    with Suc.prems show ?thesis by simp
  next
    case (Return y)
    obtain flatCoords e r2 where y: "y = ((flatCoords, e), r2)"
      by (metis surj_pair)
    show ?thesis
    proof (cases e)
      case (Some err')
      with Return y Suc.prems show ?thesis by simp
    next
      case None
      let ?fcs = "fcs @ flatCoords"
      let ?es = "es @ [int (length ?fcs)]"
      from Return y None Suc.prems
      have "ReadFlatCoords2_loop maxElems r2 bo stride m ?fcs ?es = Return ((fc, ends, None), r')"
        by simp
      from Suc.IH [OF this] obtain subs rs where
        *: "length subs = m" "length rs = Suc m" "rs ! 0 = r2" "rs ! m = r'"
           "\<forall>i<m. ReadFlatCoords1 maxElems (rs ! i) bo stride =
               Return ((subs ! i, None), rs ! Suc i)"
           "fc = ?fcs @ concat subs"
           "ends = ?es @ map (\<lambda>i. int (length (?fcs @ concat (take (Suc i) subs)))) [0..<m]"
        by blast
      let ?subs = "flatCoords # subs" and ?rs = "r # rs"
      have a: "length ?subs = Suc m" "length ?rs = Suc (Suc m)" "?rs ! 0 = r" "?rs ! Suc m = r'"
        using * by simp_all
      have b: "\<forall>i<Suc m. ReadFlatCoords1 maxElems (?rs ! i) bo stride =
               Return ((?subs ! i, None), ?rs ! Suc i)"
      proof (intro allI impI)
        fix i assume i: "i < Suc m"
        show "ReadFlatCoords1 maxElems (?rs ! i) bo stride =
               Return ((?subs ! i, None), ?rs ! Suc i)"
        proof (cases i)
          case 0
          with Return y None *(3) show ?thesis by simp
        next
          case (Suc j)
          with i *(5) show ?thesis by simp
        qed
      qed
      have c: "fc = fcs @ concat ?subs" using *(6) by simp
      have "map (\<lambda>i. int (length (fcs @ concat (take (Suc i) ?subs)))) [0..<Suc m] =
              int (length ?fcs) # map (\<lambda>i. int (length (?fcs @ concat (take (Suc i) subs)))) [0..<m]"
        by (simp add: upt_rec [of 0 "Suc m"] map_Suc_upt [symmetric] del: upt_Suc)
      then have d: "ends = es @ map (\<lambda>i. int (length (fcs @ concat (take (Suc i) ?subs)))) [0..<Suc m]"
        using *(7) by simp
      from a b c d show ?thesis by blast
    qed
  qed
qed

lemma length_concat_take_le:
  "i \<le> j \<Longrightarrow> length (concat (take i xs)) \<le> length (concat (take j xs))"
proof -
  assume "i \<le> j"
  then have "take j xs = take i xs @ take (j - i) (drop i xs)"
    by (metis le_add_diff_inverse take_add)
  then show ?thesis by simp
qed

lemma ends_strict:
  assumes "\<forall>s\<in>set subs. s \<noteq> []"
  shows "sorted_wrt (<) (map (\<lambda>i. int (length (concat (take (Suc i) subs)))) [0..<length subs])"
proof -
  have "length (concat (take (Suc i) subs)) < length (concat (take (Suc j) subs))"
    if "i < j" "j < length subs" for i j
  proof -
    have le: "length (concat (take (Suc i) subs)) \<le> length (concat (take j subs))"
      using that by (intro length_concat_take_le) simp
    have eq: "length (concat (take (Suc j) subs)) =
                length (concat (take j subs)) + length (subs ! j)"
      using that by (simp add: take_Suc_conv_app_nth)
    have pos: "0 < length (subs ! j)"
      using assms that by simp
    from le eq pos show ?thesis by linarith
  qed
  then show ?thesis
    by (simp add: sorted_wrt_iff_nth_less)
qed

text \<open>
  Claim C4, as the code has it. For every successful \<open>ReadFlatCoords2\<close> the ends are
  non-decreasing, and strictly increasing when no sub-array is empty (a sub-array
  with no coordinate repeats the previous end). Every end lies between 0 and the
  number of coordinates returned, the last end is that number when there is one (with
  outer count 0 there is no end and no coordinate), and the number of ends is the
  outer count \<open>n\<close> that was decoded. The last conjunct says where the ends come from:
  \<open>subs\<close> are the sub-arrays that the \<open>n\<close> inner reads returned, one after the other
  on the streams \<open>rs\<close>; the coordinates are their concatenation and the end number
  \<open>i\<close> is the length of the first \<open>i + 1\<close> of them together.
\<close>

theorem ReadFlatCoords2_ends_invariant:
  assumes "ReadFlatCoords2 maxElems r byteOrder stride =
             Return ((flatCoordss, ends, None), r')"
  shows "sorted ends \<and>
         (\<forall>e\<in>set ends. 0 \<le> e \<and> e \<le> int (length flatCoordss)) \<and>
         (ends \<noteq> [] \<longrightarrow> last ends = int (length flatCoordss)) \<and>
         (ends = [] \<longrightarrow> flatCoordss = []) \<and>
         (\<exists>n. binary_Read_uint32 r byteOrder = (Inr n, drop 4 r) \<and> length ends = unat n) \<and>
         (\<exists>n subs rs.
            binary_Read_uint32 r byteOrder = (Inr n, rs ! 0) \<and>
            length subs = unat n \<and> length rs = Suc (unat n) \<and> rs ! unat n = r' \<and>
            (\<forall>i<unat n. ReadFlatCoords1 maxElems (rs ! i) byteOrder stride =
                Return ((subs ! i, None), rs ! Suc i)) \<and>
            flatCoordss = concat subs \<and>
            ends = map (\<lambda>i. int (length (concat (take (Suc i) subs)))) [0..<unat n] \<and>
            ((\<forall>s\<in>set subs. s \<noteq> []) \<longrightarrow> sorted_wrt (<) ends))"
proof -
  obtain a r1 where a: "binary_Read_uint32 r byteOrder = (a, r1)"
    by (cases "binary_Read_uint32 r byteOrder")
  from a assms obtain n where n: "a = Inr n" "\<not> maxElems ! 2 < n"
    and run: "ReadFlatCoords2_loop maxElems r1 byteOrder stride (unat n) [] [] =
              Return ((flatCoordss, ends, None), r')"
    by (cases a) (auto simp: ReadFlatCoords2_def split: if_splits)
  from a n have r1: "r1 = drop 4 r"
    using binary_Read_uint32_Inr by blast
  from ReadFlatCoords2_loop_ok [OF run]
  have *: "sorted ends" "\<forall>e\<in>set ends. 0 \<le> e \<and> e \<le> int (length flatCoordss)"
    "last (0 # ends) = int (length flatCoordss)" "length ends = unat n"
    by simp_all
  from *(3) have e: "ends \<noteq> [] \<longrightarrow> last ends = int (length flatCoordss)"
    "ends = [] \<longrightarrow> flatCoordss = []"
    by auto
  from ReadFlatCoords2_loop_ok_chain [OF run] obtain subs rs where
    c: "length subs = unat n" "length rs = Suc (unat n)" "rs ! 0 = r1" "rs ! unat n = r'"
       "\<forall>i<unat n. ReadFlatCoords1 maxElems (rs ! i) byteOrder stride =
           Return ((subs ! i, None), rs ! Suc i)"
       "flatCoordss = concat subs"
       "ends = map (\<lambda>i. int (length (concat (take (Suc i) subs)))) [0..<unat n]"
    by auto
  have s: "(\<forall>s\<in>set subs. s \<noteq> []) \<longrightarrow> sorted_wrt (<) ends"
    using ends_strict [of subs] c(1,7) by simp
  from a n c(3) have "binary_Read_uint32 r byteOrder = (Inr n, rs ! 0)" by simp
  with c s have chain: "\<exists>n subs rs.
            binary_Read_uint32 r byteOrder = (Inr n, rs ! 0) \<and>
            length subs = unat n \<and> length rs = Suc (unat n) \<and> rs ! unat n = r' \<and>
            (\<forall>i<unat n. ReadFlatCoords1 maxElems (rs ! i) byteOrder stride =
                Return ((subs ! i, None), rs ! Suc i)) \<and>
            flatCoordss = concat subs \<and>
            ends = map (\<lambda>i. int (length (concat (take (Suc i) subs)))) [0..<unat n] \<and>
            ((\<forall>s\<in>set subs. s \<noteq> []) \<longrightarrow> sorted_wrt (<) ends)"
    by blast
  from a n r1 *(4) have cnt: "\<exists>n. binary_Read_uint32 r byteOrder = (Inr n, drop 4 r) \<and>
      length ends = unat n"
    by blast
  from *(1,2) e cnt chain show ?thesis by blast
qed

theorem ReadFlatCoords2_ends_invariant_witness:
  "ReadFlatCoords2 MaxGeometryElements
     [0, 0, 0, 2,
      0, 0, 0, 1,  0x3F, 0xF0, 0, 0, 0, 0, 0, 0,
      0, 0, 0, 2,  0x40, 0x00, 0, 0, 0, 0, 0, 0,  0x40, 0x08, 0, 0, 0, 0, 0, 0] BigEndian 1
     = Return (([0x3FF0000000000000, 0x4000000000000000, 0x4008000000000000], [1, 3], None), []) \<and>
   sorted [1, 3 :: int] \<and>
   last [1, 3 :: int] = int (length [0x3FF0000000000000, 0x4000000000000000, 0x4008000000000000 :: float64]) \<and>
   length [1, 3 :: int] = unat (2 :: uint32) \<and>
   sorted_wrt (<) [1, 3 :: int]"
proof -
  have h: "ReadFlatCoords2 MaxGeometryElements
     [0, 0, 0, 2,
      0, 0, 0, 1,  0x3F, 0xF0, 0, 0, 0, 0, 0, 0,
      0, 0, 0, 2,  0x40, 0x00, 0, 0, 0, 0, 0, 0,  0x40, 0x08, 0, 0, 0, 0, 0, 0] BigEndian 1
     = Return (([0x3FF0000000000000, 0x4000000000000000, 0x4008000000000000], [1, 3], None), [])"
    by (simp add: read_eval)
  from ReadFlatCoords2_ends_invariant [OF h] h show ?thesis by simp
qed

text \<open>
  The claim as stated fails: an outer count of 2, a first sub-array of one coordinate
  of stride 2 and a second sub-array with count 0 read successfully, and the ends are
  \<open>[2, 2]\<close>, which is not strictly increasing.
\<close>

theorem ReadFlatCoords2_ends_not_strict:
  "ReadFlatCoords2 MaxGeometryElements
     [0, 0, 0, 2,
      0, 0, 0, 1,  0x3F, 0xF0, 0, 0, 0, 0, 0, 0,  0x40, 0x00, 0, 0, 0, 0, 0, 0,
      0, 0, 0, 0] BigEndian 2
     = Return (([0x3FF0000000000000, 0x4000000000000000], [2, 2], None), []) \<and>
   \<not> sorted_wrt (<) [2, 2 :: int]"
  by (simp add: read_eval)

section \<open>Writing and reading back\<close>

subsection \<open>One block\<close>

lemma length_encode: "length (concat (map (PutUint64 bo) xs)) = 8 * length xs"
  by (induction xs) (simp_all add: length_PutUint64)

lemma decode_float64s_encode:
  "decode_float64s bo (concat (map (PutUint64 bo) xs)) (length xs) = xs"
  by (induction xs) (simp_all add: length_PutUint64 Uint64_PutUint64)

lemma ReadFull_append: "ReadFull (bs @ rest) (length bs) = (Inr bs, rest)"
  by (simp add: ReadFull_def)

lemma binary_Read_uint32_PutUint32:
  "binary_Read_uint32 (PutUint32 bo v @ rest) bo = (Inr v, rest)"
  using ReadFull_append [of "PutUint32 bo v" rest]
  by (simp add: binary_Read_uint32_def length_PutUint32 Uint32_PutUint32)

lemma binary_Read_float64s_encode:
  "binary_Read_float64s (concat (map (PutUint64 bo) xs) @ rest) bo (length xs) = (Inr xs, rest)"
  using ReadFull_append [of "concat (map (PutUint64 bo) xs)" rest]
  by (simp add: binary_Read_float64s_def length_encode decode_float64s_encode)

lemma WriteFlatCoords1_Buffer:
  "stride \<noteq> 0 \<Longrightarrow>
   WriteFlatCoords1 Buffer_Write w bo coords stride =
     Return (None, w @ PutUint32 bo (word_of_int (go_div (int (length coords)) stride))
                     @ concat (map (PutUint64 bo) coords))"
  by (simp add: WriteFlatCoords1_def binary_Write_uint32_def binary_Write_float64s_def
        Buffer_Write_def)

lemma ReadFlatCoords1_block:
  assumes "n \<le> maxElems ! 1" and "int64 (uint n * stride) = int (length coords)"
  shows "ReadFlatCoords1 maxElems (PutUint32 bo n @ concat (map (PutUint64 bo) coords) @ rest)
           bo stride = Return ((coords, None), rest)"
  using assms
  by (simp add: ReadFlatCoords1_def binary_Read_uint32_PutUint32 make_len_def
        binary_Read_float64s_encode not_less [symmetric])

lemma go_div_nonneg: "0 \<le> a \<Longrightarrow> 0 < b \<Longrightarrow> go_div a b = a div b"
  by (cases "a = 0") (simp_all add: go_div_def)

lemma int64_id: "0 \<le> x \<Longrightarrow> x < 2 ^ 63 \<Longrightarrow> int64 x = x"
  by (simp add: int64_def)

lemma count_word:
  fixes lim :: uint32
  assumes "0 < stride" and "stride dvd L" and "0 \<le> L" and "L div stride \<le> uint lim"
  shows "(word_of_int (go_div L stride) :: uint32) \<le> lim"
    and "uint (word_of_int (go_div L stride) :: uint32) * stride = L"
proof -
  let ?q = "L div stride"
  have q0: "0 \<le> ?q" using assms by (simp add: pos_imp_zdiv_nonneg_iff)
  have "uint lim < 2 ^ 32" using uint_lt2p [of lim] by simp
  with assms have q1: "?q < 2 ^ 32" by linarith
  have u: "uint (word_of_int ?q :: uint32) = ?q"
    using q0 q1 by (simp add: uint_word_of_int)
  have g: "go_div L stride = ?q" using assms by (simp add: go_div_nonneg)
  show "(word_of_int (go_div L stride) :: uint32) \<le> lim"
    using u g assms(4) by (simp add: word_le_def)
  show "uint (word_of_int (go_div L stride) :: uint32) * stride = L"
    using u g assms(2) by simp
qed

text \<open>
  Claim C2, as the code has it. For a stride in \<open>{1, 2, 3, 4}\<close> and coordinates
  whose number is a multiple of the stride and whose number of tuples
  \<open>len / stride\<close> is at most \<open>maxElems ! 1\<close>, \<open>WriteFlatCoords1\<close> into an empty buffer
  followed by \<open>ReadFlatCoords1\<close> on the bytes written, with the same byte order and
  stride, returns the coordinates bit for bit and leaves no byte unread.
\<close>

theorem WriteFlatCoords1_ReadFlatCoords1:
  assumes "stride \<in> {1, 2, 3, 4}"
    and "stride dvd int (length coords)"
    and "int (length coords) div stride \<le> uint (maxElems ! 1)"
  shows "\<exists>bs. WriteFlatCoords1 Buffer_Write [] byteOrder coords stride = Return (None, bs) \<and>
              ReadFlatCoords1 maxElems bs byteOrder stride = Return ((coords, None), [])"
proof -
  let ?L = "int (length coords)"
  let ?n = "word_of_int (go_div ?L stride) :: uint32"
  from assms(1) have s: "0 < stride" "stride \<le> 4" by auto
  have n: "?n \<le> maxElems ! 1" "uint ?n * stride = ?L"
    using count_word [OF s(1) assms(2) _ assms(3)] by simp_all
  have "uint ?n < 2 ^ 32" using uint_lt2p [of ?n] by simp
  then have "uint ?n * stride < 2 ^ 32 * 4"
    using s by (intro mult_less_le_imp_less) simp_all
  with n(2) have "?L < 2 ^ 63" by simp
  then have i: "int64 (uint ?n * stride) = ?L"
    using n(2) by (simp add: int64_id)
  have w: "WriteFlatCoords1 Buffer_Write [] byteOrder coords stride =
             Return (None, PutUint32 byteOrder ?n @ concat (map (PutUint64 byteOrder) coords))"
    using s(1) by (simp add: WriteFlatCoords1_Buffer)
  have r: "ReadFlatCoords1 maxElems
             (PutUint32 byteOrder ?n @ concat (map (PutUint64 byteOrder) coords))
             byteOrder stride = Return ((coords, None), [])"
    using ReadFlatCoords1_block [OF n(1) i, of byteOrder "[]"] by simp
  from w r show ?thesis by blast
qed

theorem WriteFlatCoords1_ReadFlatCoords1_witness:
  "(3 :: int) \<in> {1, 2, 3, 4} \<and>
   (3 :: int) dvd int (length [0x3FF0000000000000, 0x4000000000000000, 0x4008000000000000 :: float64]) \<and>
   int (length [0x3FF0000000000000, 0x4000000000000000, 0x4008000000000000 :: float64]) div 3
     \<le> uint (MaxGeometryElements ! 1) \<and>
   (\<exists>bs. WriteFlatCoords1 Buffer_Write [] LittleEndian
            [0x3FF0000000000000, 0x4000000000000000, 0x4008000000000000] 3 = Return (None, bs) \<and>
         ReadFlatCoords1 MaxGeometryElements bs LittleEndian 3 =
           Return (([0x3FF0000000000000, 0x4000000000000000, 0x4008000000000000], None), []))"
proof -
  have a: "(3 :: int) \<in> {1, 2, 3, 4}" by simp
  have b: "(3 :: int) dvd int (length [0x3FF0000000000000, 0x4000000000000000, 0x4008000000000000 :: float64])"
    by simp
  have c: "int (length [0x3FF0000000000000, 0x4000000000000000, 0x4008000000000000 :: float64]) div 3
     \<le> uint (MaxGeometryElements ! 1)"
    by (simp add: MaxGeometryElements_def)
  from WriteFlatCoords1_ReadFlatCoords1 [OF a b c] a b c show ?thesis by blast
qed

lemma PutUint32_BE_1: "PutUint32 BigEndian 1 = [0, 0, 0, 1]"
  by simp

lemma PutUint32_BE_1048577: "PutUint32 BigEndian 1048577 = [0x00, 0x10, 0x00, 0x01]"
  by simp

text \<open>
  Without the bound on the number of tuples the claim fails: with stride 1 and the
  initial table, 1048577 coordinates are written with the count 1048577, and the read
  of these bytes stops at the count with \<open>ErrGeometryTooLarge\<close>.
\<close>

theorem WriteFlatCoords1_ReadFlatCoords1_too_large:
  "WriteFlatCoords1 Buffer_Write [] BigEndian (replicate 1048577 0) 1 =
     Return (None, [0x00, 0x10, 0x00, 0x01] @ concat (replicate 1048577 (PutUint64 BigEndian 0))) \<and>
   ReadFlatCoords1 MaxGeometryElements
     ([0x00, 0x10, 0x00, 0x01] @ concat (replicate 1048577 (PutUint64 BigEndian 0))) BigEndian 1 =
     Return (([], Some (ErrGeometryTooLarge 1 1048577 1048576)),
             concat (replicate 1048577 (PutUint64 BigEndian 0)))"
proof -
  define coords :: "float64 list" where "coords = replicate 1048577 0"
  define payload where "payload = concat (map (PutUint64 BigEndian) coords)"
  have len: "int (length coords) = 1048577"
    by (simp add: coords_def)
  have "WriteFlatCoords1 Buffer_Write [] BigEndian coords 1 =
          Return (None, PutUint32 BigEndian (word_of_int (go_div (int (length coords)) 1)) @ payload)"
    by (simp add: WriteFlatCoords1_Buffer payload_def)
  also have "go_div (int (length coords)) 1 = 1048577"
    unfolding len by (simp add: go_div_def)
  finally have w: "WriteFlatCoords1 Buffer_Write [] BigEndian coords 1 =
          Return (None, [0x00, 0x10, 0x00, 0x01] @ payload)"
    by simp
  have "binary_Read_uint32 (PutUint32 BigEndian 1048577 @ payload) BigEndian =
          (Inr 1048577, payload)"
    by (rule binary_Read_uint32_PutUint32)
  then have "binary_Read_uint32 ([0x00, 0x10, 0x00, 0x01] @ payload) BigEndian =
          (Inr 1048577, payload)"
    by (simp only: PutUint32_BE_1048577)
  then have r: "ReadFlatCoords1 MaxGeometryElements ([0x00, 0x10, 0x00, 0x01] @ payload) BigEndian 1 =
          Return (([], Some (ErrGeometryTooLarge 1 1048577 1048576)), payload)"
    by (simp add: ReadFlatCoords1_def MaxGeometryElements_def)
  have p: "payload = concat (replicate 1048577 (PutUint64 BigEndian 0))"
    unfolding payload_def coords_def by (simp only: map_replicate)
  from w r show ?thesis unfolding p unfolding coords_def by blast
qed

subsection \<open>A number of coordinates that is not a multiple of the stride\<close>

text \<open>
  Claim C9, as the code has it. For a stride other than 0 and coordinates whose number
  is not a multiple of the stride, \<open>WriteFlatCoords1\<close> succeeds on the writer that
  never fails: it writes the count \<^verbatim>\<open>uint32(len(coords)/stride)\<close>, the quotient
  truncated towards zero and cut to 32 bits (for a positive stride the quotient is
  \<open>\<lfloor>len / stride\<rfloor>\<close>), and then all \<open>len\<close> scalars, eight bytes each; so the number
  of scalars in the block is not the count times the stride.
\<close>

theorem WriteFlatCoords1_partial_tuple:
  assumes "stride \<noteq> 0" and "\<not> stride dvd int (length coords)"
  shows "WriteFlatCoords1 Buffer_Write w byteOrder coords stride =
           Return (None,
             w @ PutUint32 byteOrder (word_of_int (go_div (int (length coords)) stride))
               @ concat (map (PutUint64 byteOrder) coords)) \<and>
         length (concat (map (PutUint64 byteOrder) coords)) = 8 * length coords \<and>
         (0 < stride \<longrightarrow> go_div (int (length coords)) stride = int (length coords) div stride) \<and>
         uint (word_of_int (go_div (int (length coords)) stride) :: uint32) * stride
           \<noteq> int (length coords)"
proof -
  have "uint (word_of_int (go_div (int (length coords)) stride) :: uint32) * stride
           \<noteq> int (length coords)"
    using assms(2) by (metis dvd_triv_right)
  then show ?thesis
    using assms(1) by (simp add: WriteFlatCoords1_Buffer length_encode go_div_nonneg)
qed

theorem WriteFlatCoords1_partial_tuple_witness:
  "(2 :: int) \<noteq> 0 \<and> \<not> (2 :: int) dvd int (length [0, 0, 0 :: float64]) \<and>
   WriteFlatCoords1 Buffer_Write [] BigEndian [0, 0, 0] 2 =
     Return (None, [0, 0, 0, 1,  0, 0, 0, 0, 0, 0, 0, 0,  0, 0, 0, 0, 0, 0, 0, 0,
                    0, 0, 0, 0, 0, 0, 0, 0]) \<and>
   uint (1 :: uint32) * 2 \<noteq> int (length [0, 0, 0 :: float64])"
proof -
  have a: "(2 :: int) \<noteq> 0" by simp
  have b: "\<not> (2 :: int) dvd int (length [0, 0, 0 :: float64])" by simp
  from WriteFlatCoords1_partial_tuple [OF a b, of "[]" BigEndian] a b
  show ?thesis by (simp add: go_div_def)
qed

text \<open>
  For stride 0 the claim fails: one coordinate is not a multiple of 0, and the
  division \<^verbatim>\<open>len(coords)/stride\<close> panics before anything is written. For the stride
  \<open>-2\<close> and three coordinates the count written is \<^verbatim>\<open>uint32(-1)\<close>, the bytes
  \<open>FF FF FF FF\<close>, and not \<open>\<lfloor>3 / -2\<rfloor> = -2\<close>, the bytes \<open>FF FF FF FE\<close>.
\<close>

theorem WriteFlatCoords1_stride_0_panics:
  "\<not> (0 :: int) dvd int (length [0 :: float64]) \<and>
   WriteFlatCoords1 Buffer_Write [] BigEndian [0] 0 = Panic DivideByZero \<and>
   \<not> (- 2 :: int) dvd int (length [0, 0, 0 :: float64]) \<and>
   WriteFlatCoords1 Buffer_Write [] BigEndian [0, 0, 0] (- 2) =
     Return (None, [0xFF, 0xFF, 0xFF, 0xFF,  0, 0, 0, 0, 0, 0, 0, 0,  0, 0, 0, 0, 0, 0, 0, 0,
                    0, 0, 0, 0, 0, 0, 0, 0]) \<and>
   PutUint32 BigEndian (word_of_int (int (length [0, 0, 0 :: float64]) div (- 2))) =
     [0xFF, 0xFF, 0xFF, 0xFE]"
proof -
  have m1: "(word_of_int (- 1) :: uint32) = 0xFFFFFFFF" by simp
  have m2: "(word_of_int (- 2) :: uint32) = 0xFFFFFFFE" by simp
  have g: "go_div (int (length [0, 0, 0 :: float64])) (- 2) = - 1"
    by (simp add: go_div_def)
  have f: "int (length [0, 0, 0 :: float64]) div (- 2) = - 2" by simp
  have a: "WriteFlatCoords1 Buffer_Write [] BigEndian [0] 0 = Panic DivideByZero"
    by (simp add: WriteFlatCoords1_def)
  have "WriteFlatCoords1 Buffer_Write [] BigEndian [0, 0, 0] (- 2) =
          Return (None, PutUint32 BigEndian 0xFFFFFFFF @ concat (map (PutUint64 BigEndian) [0, 0, 0]))"
    unfolding m1 [symmetric] g [symmetric] by (simp add: WriteFlatCoords1_Buffer)
  then have b: "WriteFlatCoords1 Buffer_Write [] BigEndian [0, 0, 0] (- 2) =
     Return (None, [0xFF, 0xFF, 0xFF, 0xFF,  0, 0, 0, 0, 0, 0, 0, 0,  0, 0, 0, 0, 0, 0, 0, 0,
                    0, 0, 0, 0, 0, 0, 0, 0])"
    by simp
  have c: "PutUint32 BigEndian (word_of_int (int (length [0, 0, 0 :: float64]) div (- 2))) =
     [0xFF, 0xFF, 0xFF, 0xFE]"
    unfolding f m2 by simp
  from a b c show ?thesis by simp
qed

subsection \<open>The slices of \<open>WriteFlatCoords2\<close>\<close>

lemma WriteFlatCoords1_no_panic:
  "stride \<noteq> 0 \<Longrightarrow> \<exists>res. WriteFlatCoords1 wr w bo coords stride = Return res"
  by (simp add: WriteFlatCoords1_def split: prod.splits option.splits)

lemma slice_expr_Some:
  "0 \<le> lo \<Longrightarrow> lo \<le> hi \<Longrightarrow> hi \<le> int (length xs) \<Longrightarrow>
     slice_expr xs lo hi = Some (take (nat hi - nat lo) (drop (nat lo) xs))"
  by (simp add: slice_expr_def)

lemma sorted_le_last: "sorted (x # xs) \<Longrightarrow> x \<le> last (x # xs)"
  by (cases xs rule: rev_cases) (auto simp: sorted_append)

lemma walk_in_bounds:
  "0 \<le> offset \<Longrightarrow> sorted (offset # ends) \<Longrightarrow> last (offset # ends) \<le> n \<Longrightarrow>
   (lo, hi) \<in> set (zip (offset # ends) ends) \<Longrightarrow> 0 \<le> lo \<and> lo \<le> hi \<and> hi \<le> (n :: int)"
proof (induction ends arbitrary: offset)
  case Nil
  then show ?case by simp
next
  case (Cons e es)
  from Cons.prems have oe: "offset \<le> e" and s: "sorted (e # es)" and l: "last (e # es) \<le> n"
    by simp_all
  from s l have en: "e \<le> n" using sorted_le_last [of e es] by linarith
  from Cons.prems(4) consider "lo = offset \<and> hi = e" | "(lo, hi) \<in> set (zip (e # es) es)"
    by auto
  then show ?case
  proof cases
    case 1
    with Cons.prems(1) oe en show ?thesis by simp
  next
    case 2
    from Cons.IH [OF _ s l 2] Cons.prems(1) oe show ?thesis by simp
  qed
qed

lemma WriteFlatCoords2_loop_no_panic:
  "stride \<noteq> 0 \<Longrightarrow> 0 \<le> offset \<Longrightarrow> sorted (offset # ends) \<Longrightarrow>
   last (offset # ends) \<le> int (length fc) \<Longrightarrow>
     \<exists>res. WriteFlatCoords2_loop wr w bo fc ends stride offset = Return res"
proof (induction ends arbitrary: w offset)
  case Nil
  then show ?case by simp
next
  case (Cons e es)
  from Cons.prems have oe: "offset \<le> e" and s: "sorted (e # es)"
    by simp_all
  from Cons.prems s have el: "e \<le> int (length fc)"
    using sorted_le_last [of e es] by simp
  from Cons.prems oe el
  have sl: "slice_expr fc offset e = Some (take (nat e - nat offset) (drop (nat offset) fc))"
    by (simp add: slice_expr_Some)
  obtain x w' where w1:
    "WriteFlatCoords1 wr w bo (take (nat e - nat offset) (drop (nat offset) fc)) stride
       = Return (x, w')"
    using WriteFlatCoords1_no_panic [OF Cons.prems(1)] by (metis surj_pair)
  show ?case
  proof (cases x)
    case None
    have "\<exists>res. WriteFlatCoords2_loop wr w' bo fc es stride e = Return res"
      using Cons.IH [of e w'] Cons.prems oe s by simp
    with sl w1 None show ?thesis by simp
  next
    case (Some err)
    with sl w1 show ?thesis by simp
  qed
qed

text \<open>
  Claim C10, as the code has it. If the stride is not 0, the ends are non-decreasing,
  none is negative and the last one is at most the number of coordinates, then
  \<open>WriteFlatCoords2\<close> returns, whatever the writer does: it does not panic. Every
  slice \<^verbatim>\<open>flatCoords[offset:end]\<close> met while walking the ends, that is every pair of
  \<open>zip (0 # ends) ends\<close>, is within bounds.
\<close>

theorem WriteFlatCoords2_no_panic:
  assumes "stride \<noteq> 0" and "sorted ends" and "\<forall>e\<in>set ends. 0 \<le> e"
    and "ends \<noteq> [] \<longrightarrow> last ends \<le> int (length flatCoords)"
  shows "(\<exists>res. WriteFlatCoords2 wr w byteOrder flatCoords ends stride = Return res) \<and>
         (\<forall>(lo, hi) \<in> set (zip (0 # ends) ends). slice_expr flatCoords lo hi \<noteq> None)"
proof
  have s: "sorted (0 # ends)" using assms(2,3) by simp
  have l: "last (0 # ends) \<le> int (length flatCoords)" using assms(4) by simp
  obtain x w' where h: "binary_Write_uint32 wr w byteOrder (word_of_nat (length ends)) = (x, w')"
    by (metis surj_pair)
  show "\<exists>res. WriteFlatCoords2 wr w byteOrder flatCoords ends stride = Return res"
  proof (cases x)
    case None
    with h WriteFlatCoords2_loop_no_panic [OF assms(1) _ s l, of wr w' byteOrder]
    show ?thesis by (simp add: WriteFlatCoords2_def)
  next
    case (Some err)
    with h show ?thesis by (simp add: WriteFlatCoords2_def)
  qed
  have "slice_expr flatCoords lo hi \<noteq> None"
    if "(lo, hi) \<in> set (zip (0 # ends) ends)" for lo hi
    using walk_in_bounds [OF _ s l that] by (simp add: slice_expr_def)
  then show "\<forall>(lo, hi) \<in> set (zip (0 # ends) ends). slice_expr flatCoords lo hi \<noteq> None"
    by blast
qed

theorem WriteFlatCoords2_no_panic_witness:
  "(1 :: int) \<noteq> 0 \<and> sorted [1, 3 :: int] \<and> last [1, 3 :: int] \<le> int (length [0, 0, 0 :: float64]) \<and>
   (\<exists>res. WriteFlatCoords2 Buffer_Write [] BigEndian [0, 0, 0] [1, 3] 1 = Return res) \<and>
   slice_expr [0, 0, 0 :: float64] 0 1 \<noteq> None \<and> slice_expr [0, 0, 0 :: float64] 1 3 \<noteq> None"
proof -
  have a: "(1 :: int) \<noteq> 0" by simp
  have b: "sorted [1, 3 :: int]" by simp
  have c: "\<forall>e\<in>set [1, 3 :: int]. 0 \<le> e" by simp
  have d: "[1, 3 :: int] \<noteq> [] \<longrightarrow> last [1, 3 :: int] \<le> int (length [0, 0, 0 :: float64])" by simp
  from WriteFlatCoords2_no_panic [OF a b c d, of Buffer_Write "[]" BigEndian] a b d
  show ?thesis by simp
qed

text \<open>
  With stride 0 the claim fails although its precondition holds and the slice is
  within bounds: \<open>WriteFlatCoords2\<close> calls \<open>WriteFlatCoords1\<close>, whose division panics.
\<close>

theorem WriteFlatCoords2_stride_0_panics:
  "sorted [0 :: int] \<and> 0 \<le> (0 :: int) \<and> last [0 :: int] \<le> int (length ([] :: float64 list)) \<and>
   slice_expr ([] :: float64 list) 0 0 = Some [] \<and>
   WriteFlatCoords2 Buffer_Write [] BigEndian [] [0] 0 = Panic DivideByZero"
  by (simp add: WriteFlatCoords2_def WriteFlatCoords1_def binary_Write_uint32_def
        Buffer_Write_def slice_expr_def)

subsection \<open>A sequence of blocks\<close>

lemma take_drop_split:
  "a \<le> b \<Longrightarrow> b \<le> c \<Longrightarrow>
     take (b - a) (drop a xs) @ take (c - b) (drop b xs) = take (c - a) (drop a xs)"
proof -
  assume ab: "a \<le> b" and bc: "b \<le> c"
  have "take (c - a) (drop a xs) = take ((b - a) + (c - b)) (drop a xs)"
    using ab bc by simp
  also have "\<dots> = take (b - a) (drop a xs) @ take (c - b) (drop (b - a) (drop a xs))"
    by (rule take_add)
  also have "drop (b - a) (drop a xs) = drop b xs"
    using ab by simp
  finally show ?thesis by simp
qed

lemma roundtrip_loop:
  assumes stride: "0 < stride" and fits: "int (length fc) < 2 ^ 63"
  shows "0 \<le> offset \<Longrightarrow> last (offset # ends) \<le> int (length fc) \<Longrightarrow>
         (\<forall>(a, b) \<in> set (zip (offset # ends) ends).
             a \<le> b \<and> stride dvd (b - a) \<and> (b - a) div stride \<le> uint (maxElems ! 1)) \<Longrightarrow>
         \<exists>bs. WriteFlatCoords2_loop Buffer_Write w bo fc ends stride offset = Return (None, w @ bs) \<and>
              (\<forall>rest acc accE. int (length acc) = offset \<longrightarrow>
                 ReadFlatCoords2_loop maxElems (bs @ rest) bo stride (length ends) acc accE =
                   Return ((acc @ take (nat (last (offset # ends)) - nat offset) (drop (nat offset) fc),
                            accE @ ends, None), rest))"
proof (induction ends arbitrary: w offset)
  case Nil
  then show ?case by simp
next
  case (Cons e es)
  let ?coords = "take (nat e - nat offset) (drop (nat offset) fc)"
  let ?n = "word_of_int (go_div (int (length ?coords)) stride) :: uint32"
  let ?blk = "PutUint32 bo ?n @ concat (map (PutUint64 bo) ?coords)"
  from Cons.prems(3) have oe: "offset \<le> e" and dv: "stride dvd (e - offset)"
    and lm: "(e - offset) div stride \<le> uint (maxElems ! 1)"
    and rest_ok: "\<forall>(a, b) \<in> set (zip (e # es) es).
             a \<le> b \<and> stride dvd (b - a) \<and> (b - a) div stride \<le> uint (maxElems ! 1)"
    by simp_all
  have chain: "e \<le> last (e # es)"
    using rest_ok
  proof (induction es arbitrary: e)
    case Nil
    then show ?case by simp
  next
    case (Cons x xs)
    from Cons.prems have "e \<le> x" by simp
    moreover from Cons.prems have "x \<le> last (x # xs)"
      by (intro Cons.IH) simp
    ultimately show ?case by simp
  qed
  with Cons.prems(2) have el: "e \<le> int (length fc)" by simp
  from Cons.prems(1) oe have e0: "0 \<le> e" by simp
  have len: "int (length ?coords) = e - offset"
    using Cons.prems(1) oe el by simp
  have sl: "slice_expr fc offset e = Some ?coords"
    using Cons.prems(1) oe el by (simp add: slice_expr_Some)
  have w1: "WriteFlatCoords1 Buffer_Write w bo ?coords stride = Return (None, w @ ?blk)"
    using stride by (simp add: WriteFlatCoords1_Buffer)
  have cnt: "?n \<le> maxElems ! 1" "uint ?n * stride = int (length ?coords)"
    using count_word [OF stride, of "int (length ?coords)" "maxElems ! 1"] dv lm
    unfolding len using oe by simp_all
  have "int (length ?coords) < 2 ^ 63"
    using len el fits Cons.prems(1) by linarith
  then have i64: "int64 (uint ?n * stride) = int (length ?coords)"
    unfolding cnt(2) by (simp add: int64_id)
  from Cons.IH [OF e0 _ rest_ok, of "w @ ?blk"] Cons.prems(2)
  obtain bs where
    wl: "WriteFlatCoords2_loop Buffer_Write (w @ ?blk) bo fc es stride e =
           Return (None, (w @ ?blk) @ bs)"
    and rl: "\<And>rest acc accE. int (length acc) = e \<Longrightarrow>
           ReadFlatCoords2_loop maxElems (bs @ rest) bo stride (length es) acc accE =
             Return ((acc @ take (nat (last (e # es)) - nat e) (drop (nat e) fc),
                      accE @ es, None), rest)"
    by auto
  have W: "WriteFlatCoords2_loop Buffer_Write w bo fc (e # es) stride offset =
             Return (None, w @ (?blk @ bs))"
    using sl w1 wl by simp
  have R: "ReadFlatCoords2_loop maxElems ((?blk @ bs) @ rest) bo stride (length (e # es)) acc accE =
             Return ((acc @ take (nat (last (offset # e # es)) - nat offset) (drop (nat offset) fc),
                      accE @ e # es, None), rest)"
    if acc: "int (length acc) = offset" for rest acc accE
  proof -
    have r1: "ReadFlatCoords1 maxElems ((?blk @ bs) @ rest) bo stride =
                Return ((?coords, None), bs @ rest)"
      using ReadFlatCoords1_block [OF cnt(1) i64, of bo "bs @ rest"] by simp
    have la: "int (length (acc @ ?coords)) = e"
      using acc len by simp
    have sp: "?coords @ take (nat (last (e # es)) - nat e) (drop (nat e) fc) =
                take (nat (last (e # es)) - nat offset) (drop (nat offset) fc)"
      using oe chain by (intro take_drop_split) simp_all
    have "ReadFlatCoords2_loop maxElems ((?blk @ bs) @ rest) bo stride (Suc (length es)) acc accE =
            ReadFlatCoords2_loop maxElems (bs @ rest) bo stride (length es)
              (acc @ ?coords) (accE @ [int (length (acc @ ?coords))])"
      using r1 by simp
    also have "\<dots> = Return (((acc @ ?coords) @ take (nat (last (e # es)) - nat e) (drop (nat e) fc),
                      (accE @ [int (length (acc @ ?coords))]) @ es, None), rest)"
      by (rule rl [OF la])
    finally show ?thesis
      using sp la by simp
  qed
  from W R show ?case by blast
qed

text \<open>
  Claim C3, as the code has it. Let the stride be positive and let the ends split the
  coordinates into sub-arrays: they start at 0, do not decrease and the last one is
  the number of coordinates (which, as the length of a slice, is below \<open>2^63\<close>). If
  every sub-array is a whole number of tuples, at most \<open>maxElems ! 1\<close> of them, and
  there are at most \<open>maxElems ! 2\<close> sub-arrays, then \<open>WriteFlatCoords2\<close> into an empty
  buffer followed by \<open>ReadFlatCoords2\<close> on the bytes written, with the same byte order
  and stride, returns exactly the coordinates and the ends.
\<close>

theorem WriteFlatCoords2_ReadFlatCoords2:
  assumes "0 < stride"
    and "int (length flatCoords) < 2 ^ 63"
    and "last (0 # ends) = int (length flatCoords)"
    and "\<forall>(a, b) \<in> set (zip (0 # ends) ends).
           a \<le> b \<and> stride dvd (b - a) \<and> (b - a) div stride \<le> uint (maxElems ! 1)"
    and "int (length ends) \<le> uint (maxElems ! 2)"
  shows "\<exists>bs. WriteFlatCoords2 Buffer_Write [] byteOrder flatCoords ends stride = Return (None, bs) \<and>
              ReadFlatCoords2 maxElems bs byteOrder stride = Return ((flatCoords, ends, None), [])"
proof -
  let ?n = "word_of_nat (length ends) :: uint32"
  let ?hdr = "PutUint32 byteOrder ?n"
  have "uint (maxElems ! 2) < 2 ^ 32" using uint_lt2p [of "maxElems ! 2"] by simp
  with assms(5) have "int (length ends) < 2 ^ 32" by linarith
  then have small: "length ends < 2 ^ 32" by simp
  then have un: "unat ?n = length ends"
    by (simp add: unat_of_nat)
  then have "uint ?n = int (length ends)"
    by (metis uint_nat)
  with assms(5) have le: "\<not> maxElems ! 2 < ?n"
    by (simp add: word_less_def)
  from roundtrip_loop [OF assms(1,2) order_refl _ assms(4), of ?hdr byteOrder] assms(3)
  obtain bs where
    wl: "WriteFlatCoords2_loop Buffer_Write ?hdr byteOrder flatCoords ends stride 0 =
           Return (None, ?hdr @ bs)"
    and rl: "\<And>rest acc accE. int (length acc) = 0 \<Longrightarrow>
           ReadFlatCoords2_loop maxElems (bs @ rest) byteOrder stride (length ends) acc accE =
             Return ((acc @ take (nat (last (0 # ends)) - nat 0) (drop (nat 0) flatCoords),
                      accE @ ends, None), rest)"
    by auto
  have W: "WriteFlatCoords2 Buffer_Write [] byteOrder flatCoords ends stride =
             Return (None, ?hdr @ bs)"
    using wl by (simp add: WriteFlatCoords2_def binary_Write_uint32_def Buffer_Write_def)
  have "ReadFlatCoords2 maxElems (?hdr @ bs) byteOrder stride =
          ReadFlatCoords2_loop maxElems (bs @ []) byteOrder stride (length ends) [] []"
    using le un by (simp add: ReadFlatCoords2_def binary_Read_uint32_PutUint32)
  also have "\<dots> = Return (([] @ take (nat (last (0 # ends)) - nat 0) (drop (nat 0) flatCoords),
                      [] @ ends, None), [])"
    by (rule rl) simp
  finally have R: "ReadFlatCoords2 maxElems (?hdr @ bs) byteOrder stride =
          Return ((flatCoords, ends, None), [])"
    using assms(3) by simp
  from W R show ?thesis by blast
qed

theorem WriteFlatCoords2_ReadFlatCoords2_witness:
  "(0 :: int) < 2 \<and>
   last [0, 6, 10 :: int] =
     int (length [0, 0, 0x3FF0000000000000, 0, 0x3FF0000000000000, 0x3FF0000000000000,
                  0x4000000000000000, 0x4000000000000000, 0x4008000000000000,
                  0x4000000000000000 :: float64]) \<and>
   int (length [6, 10 :: int]) \<le> uint (MaxGeometryElements ! 2) \<and>
   (\<exists>bs. WriteFlatCoords2 Buffer_Write [] BigEndian
            [0, 0, 0x3FF0000000000000, 0, 0x3FF0000000000000, 0x3FF0000000000000,
             0x4000000000000000, 0x4000000000000000, 0x4008000000000000, 0x4000000000000000]
            [6, 10] 2 = Return (None, bs) \<and>
         ReadFlatCoords2 MaxGeometryElements bs BigEndian 2 =
           Return (([0, 0, 0x3FF0000000000000, 0, 0x3FF0000000000000, 0x3FF0000000000000,
                     0x4000000000000000, 0x4000000000000000, 0x4008000000000000,
                     0x4000000000000000], [6, 10], None), []))"
proof -
  let ?fc = "[0, 0, 0x3FF0000000000000, 0, 0x3FF0000000000000, 0x3FF0000000000000,
              0x4000000000000000, 0x4000000000000000, 0x4008000000000000,
              0x4000000000000000 :: float64]"
  have a: "(0 :: int) < 2" by simp
  have b: "int (length ?fc) < 2 ^ 63" by simp
  have c: "last (0 # [6, 10 :: int]) = int (length ?fc)" by simp
  have d: "\<forall>(a, b) \<in> set (zip (0 # [6, 10 :: int]) [6, 10]).
             a \<le> b \<and> 2 dvd (b - a) \<and> (b - a) div 2 \<le> uint (MaxGeometryElements ! 1)"
    by (simp add: MaxGeometryElements_def)
  have e: "int (length [6, 10 :: int]) \<le> uint (MaxGeometryElements ! 2)"
    by (simp add: MaxGeometryElements_def)
  from WriteFlatCoords2_ReadFlatCoords2 [OF a b c d e, of BigEndian] c e
  show ?thesis by simp
qed

text \<open>
  For an arbitrary partition the claim fails. With stride 2, four coordinates and the
  ends \<open>[1, 4]\<close> the sub-arrays are not whole tuples: the counts written are 0 and 1,
  and the read returns no coordinate and the ends \<open>[0, 0]\<close>. With stride 1 and one
  sub-array of 1048577 coordinates the read stops with \<open>ErrGeometryTooLarge\<close>. With
  stride 0 the write panics.
\<close>

theorem WriteFlatCoords2_ReadFlatCoords2_fails:
  "WriteFlatCoords2 Buffer_Write [] BigEndian [0, 0, 0, 0] [1, 4] 2 =
     Return (None,
       [0, 0, 0, 2,
        0, 0, 0, 0,  0, 0, 0, 0, 0, 0, 0, 0,
        0, 0, 0, 1,  0, 0, 0, 0, 0, 0, 0, 0,  0, 0, 0, 0, 0, 0, 0, 0,  0, 0, 0, 0, 0, 0, 0, 0]) \<and>
   ReadFlatCoords2 MaxGeometryElements
       [0, 0, 0, 2,
        0, 0, 0, 0,  0, 0, 0, 0, 0, 0, 0, 0,
        0, 0, 0, 1,  0, 0, 0, 0, 0, 0, 0, 0,  0, 0, 0, 0, 0, 0, 0, 0,  0, 0, 0, 0, 0, 0, 0, 0]
       BigEndian 2 =
     Return (([], [0, 0], None),
       [0, 0, 0, 0,
        0, 0, 0, 1,  0, 0, 0, 0, 0, 0, 0, 0,  0, 0, 0, 0, 0, 0, 0, 0,  0, 0, 0, 0, 0, 0, 0, 0]) \<and>
   WriteFlatCoords2 Buffer_Write [] BigEndian (replicate 1048577 0) [1048577] 1 =
     Return (None, [0, 0, 0, 1] @ [0x00, 0x10, 0x00, 0x01]
                     @ concat (replicate 1048577 (PutUint64 BigEndian 0))) \<and>
   ReadFlatCoords2 MaxGeometryElements
       ([0, 0, 0, 1] @ [0x00, 0x10, 0x00, 0x01]
          @ concat (replicate 1048577 (PutUint64 BigEndian 0))) BigEndian 1 =
     Return (([], [], Some (ErrGeometryTooLarge 1 1048577 1048576)),
             concat (replicate 1048577 (PutUint64 BigEndian 0))) \<and>
   WriteFlatCoords2 Buffer_Write [] BigEndian [0, 0] [2] 0 = Panic DivideByZero"
proof -
  have A1: "WriteFlatCoords2 Buffer_Write [] BigEndian [0, 0, 0, 0] [1, 4] 2 =
     Return (None,
       [0, 0, 0, 2,
        0, 0, 0, 0,  0, 0, 0, 0, 0, 0, 0, 0,
        0, 0, 0, 1,  0, 0, 0, 0, 0, 0, 0, 0,  0, 0, 0, 0, 0, 0, 0, 0,  0, 0, 0, 0, 0, 0, 0, 0])"
    by (simp add: WriteFlatCoords2_def binary_Write_uint32_def Buffer_Write_def
          WriteFlatCoords1_Buffer slice_expr_def go_div_def)
  have A2: "ReadFlatCoords2 MaxGeometryElements
       [0, 0, 0, 2,
        0, 0, 0, 0,  0, 0, 0, 0, 0, 0, 0, 0,
        0, 0, 0, 1,  0, 0, 0, 0, 0, 0, 0, 0,  0, 0, 0, 0, 0, 0, 0, 0,  0, 0, 0, 0, 0, 0, 0, 0]
       BigEndian 2 =
     Return (([], [0, 0], None),
       [0, 0, 0, 0,
        0, 0, 0, 1,  0, 0, 0, 0, 0, 0, 0, 0,  0, 0, 0, 0, 0, 0, 0, 0,  0, 0, 0, 0, 0, 0, 0, 0])"
    by (simp add: read_eval)
  define coords :: "float64 list" where "coords = replicate 1048577 0"
  define payload where "payload = concat (map (PutUint64 BigEndian) coords)"
  have len: "int (length coords) = 1048577"
    by (simp add: coords_def)
  have sl: "slice_expr coords 0 1048577 = Some coords"
    using len by (simp add: slice_expr_def)
  have g: "go_div (int (length coords)) 1 = 1048577"
    unfolding len by (simp add: go_div_def)
  have "WriteFlatCoords2 Buffer_Write [] BigEndian coords [1048577] 1 =
          Return (None, PutUint32 BigEndian 1 @ PutUint32 BigEndian 1048577 @ payload)"
    using sl g
    by (simp add: WriteFlatCoords2_def binary_Write_uint32_def Buffer_Write_def
          WriteFlatCoords1_Buffer payload_def del: PutUint32.simps)
  then have B1: "WriteFlatCoords2 Buffer_Write [] BigEndian coords [1048577] 1 =
          Return (None, [0, 0, 0, 1] @ [0x00, 0x10, 0x00, 0x01] @ payload)"
    by (simp only: PutUint32_BE_1048577 PutUint32_BE_1)
  have "binary_Read_uint32 (PutUint32 BigEndian 1 @ PutUint32 BigEndian 1048577 @ payload) BigEndian
          = (Inr 1, PutUint32 BigEndian 1048577 @ payload)"
    by (rule binary_Read_uint32_PutUint32)
  moreover have "binary_Read_uint32 (PutUint32 BigEndian 1048577 @ payload) BigEndian
          = (Inr 1048577, payload)"
    by (rule binary_Read_uint32_PutUint32)
  ultimately have "ReadFlatCoords2 MaxGeometryElements
          (PutUint32 BigEndian 1 @ PutUint32 BigEndian 1048577 @ payload) BigEndian 1 =
     Return (([], [], Some (ErrGeometryTooLarge 1 1048577 1048576)), payload)"
    by (simp add: ReadFlatCoords2_def ReadFlatCoords1_def MaxGeometryElements_def
          del: PutUint32.simps)
  then have B2: "ReadFlatCoords2 MaxGeometryElements
          ([0, 0, 0, 1] @ [0x00, 0x10, 0x00, 0x01] @ payload) BigEndian 1 =
     Return (([], [], Some (ErrGeometryTooLarge 1 1048577 1048576)), payload)"
    by (simp only: PutUint32_BE_1048577 PutUint32_BE_1)
  have p: "payload = concat (replicate 1048577 (PutUint64 BigEndian 0))"
    unfolding payload_def coords_def by (simp only: map_replicate)
  have C: "WriteFlatCoords2 Buffer_Write [] BigEndian [0, 0] [2] 0 = Panic DivideByZero"
    by (simp add: WriteFlatCoords2_def binary_Write_uint32_def Buffer_Write_def
          WriteFlatCoords1_def slice_expr_def)
  from A1 A2 B1 B2 C show ?thesis unfolding p unfolding coords_def by blast
qed

end
